theory Spec2Isabelle
  imports Main "HOL-Library.Word"
begin

section \<open>Decoded messages\<close>

text \<open>
  A message is what \<^verbatim>\<open>encoding/json\<close> decodes into a Go
  \<^verbatim>\<open>map[string]interface{}\<close>: the dynamic values are nil, bool, float64, string,
  \<^verbatim>\<open>[]interface{}\<close> and nested maps. A float64 is kept as its 64 bits; no function
  of the repository looks inside a number.
\<close>

datatype json =
    JNull
  | JBool bool
  | JNum "64 word"
  | JStr string
  | JArr "json list"
  | JObj "string \<Rightarrow> json option"

type_synonym jmap = "string \<Rightarrow> json option"

text \<open>
  Go's comma-ok type assertions on a map entry: \<^verbatim>\<open>v, ok := m[k].(string)\<close> and
  \<^verbatim>\<open>v, ok := m[k].(map[string]interface{})\<close>. A missing key yields the nil
  interface, on which every assertion fails.
\<close>

fun assert_string :: "json option \<Rightarrow> string option" where
  "assert_string (Some (JStr s)) = Some s"
| "assert_string _ = None"

fun assert_map :: "json option \<Rightarrow> jmap option" where
  "assert_map (Some (JObj m)) = Some m"
| "assert_map _ = None"

text \<open>
  The functions of Go's standard library that the repository calls and whose code is not
  part of it are parameters of the model:
  \<^item> \<open>Unmarshal\<close>: \<^verbatim>\<open>json.Unmarshal\<close> into a \<^verbatim>\<open>map[string]interface{}\<close>,
    \<open>None\<close> when it returns an error;
  \<^item> \<open>Marshal\<close>: \<^verbatim>\<open>json.Marshal\<close> of a message, \<open>None\<close> on error;
  \<^item> \<open>MarshalIndent\<close>: \<^verbatim>\<open>json.MarshalIndent(msg, "", "  ")\<close>;
  \<^item> \<open>sha256_hex\<close>: \<^verbatim>\<open>hex.EncodeToString\<close> of the SHA-256 digest of a byte
    sequence;
  \<^item> \<open>url_Path\<close>: the \<^verbatim>\<open>Path\<close> of \<^verbatim>\<open>url.Parse(s)\<close>, \<open>None\<close> when
    parsing fails;
  \<^item> \<open>Join\<close>: \<^verbatim>\<open>filepath.Join\<close>.
\<close>

record golib =
  Unmarshal :: "string \<Rightarrow> jmap option"
  Marshal :: "jmap \<Rightarrow> string option"
  MarshalIndent :: "jmap \<Rightarrow> string option"
  sha256_hex :: "string \<Rightarrow> string"
  url_Path :: "string \<Rightarrow> string option"
  Join :: "string list \<Rightarrow> string"

section \<open>Event classifier\<close>

text \<open>
  \<^verbatim>\<open>ExtractEventInfo\<close>, in parts. \<open>author_user\<close> is the if / else-if over the
  \<^verbatim>\<open>author\<close> object, \<open>metadata_user\<close> the block that runs when \<^verbatim>\<open>user\<close>
  is still nil. \<open>nested_type\<close> is the value of the variable \<^verbatim>\<open>eventType\<close> and
  \<open>nested_user\<close> the value of \<^verbatim>\<open>user\<close> when the block over the nested
  \<^verbatim>\<open>message\<close> object has run (\<open>None\<close> is the nil pointer).
\<close>

definition author_user :: "jmap \<Rightarrow> string option" where
  "author_user message =
     (case assert_map (message ''author'') of
        Some author \<Rightarrow>
          (case assert_string (author ''slug'') of
             Some slug \<Rightarrow>
               if slug \<noteq> '''' then Some slug
               else (case assert_string (author ''username'') of
                       Some username \<Rightarrow> if username \<noteq> '''' then Some username else None
                     | None \<Rightarrow> None)
           | None \<Rightarrow>
               (case assert_string (author ''username'') of
                  Some username \<Rightarrow> if username \<noteq> '''' then Some username else None
                | None \<Rightarrow> None))
      | None \<Rightarrow> None)"

definition metadata_user :: "golib \<Rightarrow> jmap \<Rightarrow> string option" where
  "metadata_user L message =
     (case assert_string (message ''metadata'') of
        Some metadata \<Rightarrow>
          if metadata \<noteq> '''' then
            (case Unmarshal L metadata of
               Some metadataObj \<Rightarrow>
                 (case assert_string (metadataObj ''who'') of
                    Some who \<Rightarrow> if who \<noteq> '''' then Some who else None
                  | None \<Rightarrow> None)
             | None \<Rightarrow> None)
          else None
      | None \<Rightarrow> None)"

definition nested_type :: "jmap \<Rightarrow> string" where
  "nested_type msg =
     (case assert_map (msg ''message'') of
        Some message \<Rightarrow>
          (case assert_string (message ''type'') of
             Some typeField \<Rightarrow> if typeField \<noteq> '''' then typeField else ''''
           | None \<Rightarrow> '''')
      | None \<Rightarrow> '''')"

definition nested_user :: "golib \<Rightarrow> jmap \<Rightarrow> string option" where
  "nested_user L msg =
     (case assert_map (msg ''message'') of
        Some message \<Rightarrow>
          (case author_user message of
             Some u \<Rightarrow> Some u
           | None \<Rightarrow> metadata_user L message)
      | None \<Rightarrow> None)"

definition ExtractEventInfo :: "golib \<Rightarrow> jmap \<Rightarrow> string \<times> string option \<times> bool" where
  "ExtractEventInfo L msg =
     (let eventType = nested_type msg; user = nested_user L msg in
      if eventType \<noteq> '''' then (eventType, user, True)
      else (case assert_string (msg ''type'') of
              Some typeField \<Rightarrow> (typeField, None, True)
            | None \<Rightarrow>
                (case assert_string (msg ''event'') of
                   Some event \<Rightarrow> (event, user, True)
                 | None \<Rightarrow> ('''', None, False))))"

definition IsStreamEvent :: "jmap \<Rightarrow> bool" where
  "IsStreamEvent msg =
     (case assert_map (msg ''message'') of
        Some message \<Rightarrow>
          (case assert_string (message ''event'') of
             Some event \<Rightarrow> event = ''StreamEvent''
           | None \<Rightarrow> False)
      | None \<Rightarrow> False)"

section \<open>Stream event store\<close>

text \<open>
  A row of the table \<^verbatim>\<open>stream_events\<close>, under the field names of the Go struct; the
  timestamp is the stored integer (unix seconds). The table is the list of its rows in
  insertion order, with the counter SQLite keeps for an AUTOINCREMENT key.
\<close>

record StreamEvent =
  ID :: int
  ReceivedTimestamp :: int
  EventType :: string
  UserWhoPerformedAction :: "string option"
  RawJSON :: string

record event_table =
  stream_events :: "StreamEvent list"
  last_rowid :: int

datatype store_error = ExtractFailed | MarshalFailed | InsertFailed

text \<open>
  What the outside world answers during one call of \<^verbatim>\<open>StoreEvent\<close>: the clock
  (\<^verbatim>\<open>time.Now().Unix()\<close>) and whether the INSERT statement fails.
\<close>

record store_env =
  now_unix :: int
  insert_fails :: bool

definition StoreEvent ::
  "golib \<Rightarrow> store_env \<Rightarrow> event_table \<Rightarrow> jmap \<Rightarrow> store_error option \<times> event_table" where
  "StoreEvent L env db msg =
     (if \<not> IsStreamEvent msg then (None, db)
      else (case ExtractEventInfo L msg of
              (eventType, user, ok) \<Rightarrow>
                if \<not> ok then (Some ExtractFailed, db)
                else (case Marshal L msg of
                        None \<Rightarrow> (Some MarshalFailed, db)
                      | Some rawJSON \<Rightarrow>
                          if insert_fails env then (Some InsertFailed, db)
                          else (None,
                                db\<lparr>stream_events := stream_events db @
                                      [\<lparr>ID = last_rowid db + 1,
                                        ReceivedTimestamp = now_unix env,
                                        EventType = eventType,
                                        UserWhoPerformedAction = user,
                                        RawJSON = rawJSON\<rparr>],
                                    last_rowid := last_rowid db + 1\<rparr>))))"

section \<open>Go strings\<close>

text \<open>
  A Go string is a sequence of bytes, here a \<open>string\<close>; \<open>of_char\<close> reads a byte
  as a number. \<open>DecodeRune\<close> is \<^verbatim>\<open>utf8.DecodeRuneInString\<close>: the first
  code point of a byte sequence and its width, \<open>RuneError\<close> with width 1 on a byte
  sequence that is not UTF-8. \<open>runes\<close> is the conversion \<^verbatim>\<open>[]rune(s)\<close>, and
  \<open>EncodeRune\<close> the conversion \<^verbatim>\<open>string(r)\<close> of one rune.
\<close>

definition RuneError :: nat where
  "RuneError = 0xFFFD"

fun DecodeRune :: "nat list \<Rightarrow> nat \<times> nat" where
  "DecodeRune [] = (RuneError, 0)"
| "DecodeRune (s0 # rest) =
     (if s0 < 0x80 then (s0, 1)
      else if s0 < 0xC2 then (RuneError, 1)
      else if 0xF4 < s0 then (RuneError, 1)
      else
        (let sz = (if s0 < 0xE0 then 2 else if s0 < 0xF0 then 3 else (4::nat));
             lo = (if s0 = 0xE0 then 0xA0 else if s0 = 0xF0 then 0x90 else (0x80::nat));
             hi = (if s0 = 0xED then 0x9F else if s0 = 0xF4 then 0x8F else (0xBF::nat))
         in if Suc (length rest) < sz then (RuneError, 1)
            else
              (let s1 = rest ! 0 in
               if s1 < lo then (RuneError, 1)
               else if hi < s1 then (RuneError, 1)
               else if sz \<le> 2 then ((s0 mod 32) * 64 + s1 mod 64, 2)
               else
                 (let s2 = rest ! 1 in
                  if s2 < 0x80 then (RuneError, 1)
                  else if 0xBF < s2 then (RuneError, 1)
                  else if sz \<le> 3 then
                    ((s0 mod 16) * 4096 + (s1 mod 64) * 64 + s2 mod 64, 3)
                  else
                    (let s3 = rest ! 2 in
                     if s3 < 0x80 then (RuneError, 1)
                     else if 0xBF < s3 then (RuneError, 1)
                     else ((s0 mod 8) * 262144 + (s1 mod 64) * 4096 +
                           (s2 mod 64) * 64 + s3 mod 64, 4))))))"

function runes_of :: "nat list \<Rightarrow> nat list" where
  "runes_of [] = []"
| "runes_of (b # bs) =
     fst (DecodeRune (b # bs)) # runes_of (drop (snd (DecodeRune (b # bs)) - 1) bs)"
  by pat_completeness auto
termination
  by (relation "measure length") auto

definition runes :: "string \<Rightarrow> nat list" where
  "runes s = runes_of (map of_char s)"

definition EncodeRune :: "nat \<Rightarrow> string" where
  "EncodeRune r =
     (if r < 0x80 then [char_of r]
      else if r < 0x800 then [char_of (0xC0 + r div 64), char_of (0x80 + r mod 64)]
      else if 0x10FFFF < r then [char_of (0xEF::nat), char_of (0xBF::nat), char_of (0xBD::nat)]
      else if 0xD800 \<le> r \<and> r \<le> 0xDFFF then
        [char_of (0xEF::nat), char_of (0xBF::nat), char_of (0xBD::nat)]
      else if r < 0x10000 then
        [char_of (0xE0 + r div 4096), char_of (0x80 + (r div 64) mod 64),
         char_of (0x80 + r mod 64)]
      else
        [char_of (0xF0 + r div 262144), char_of (0x80 + (r div 4096) mod 64),
         char_of (0x80 + (r div 64) mod 64), char_of (0x80 + r mod 64)])"

text \<open>
  \<^verbatim>\<open>unicode.ToLower\<close> on one rune. Go's case tables are not part of the repository.
  The model is exact on every rune whose lower-case form is an ASCII character: the
  letters A to Z, and the two code points outside ASCII that Go's
  \<^verbatim>\<open>unicode.CaseRanges\<close> maps into ASCII, U+0130 (to \<open>i\<close>, delta -199) and
  U+212A, the Kelvin sign (to \<open>k\<close>, delta -8383). Every other rune outside ASCII has a
  lower-case form outside ASCII, and the model leaves it as it is: the two callers
  below compare the result with ASCII strings only, so they cannot tell the difference.
  \<open>ToLower\<close> is \<^verbatim>\<open>strings.ToLower\<close>: each rune of the string mapped and encoded
  again.
\<close>

definition unicode_ToLower :: "nat \<Rightarrow> nat" where
  "unicode_ToLower r =
     (if 0x41 \<le> r \<and> r \<le> 0x5A then r + 0x20
      else if r = 0x130 then 0x69
      else if r = 0x212A then 0x6B
      else r)"

definition ToLower :: "string \<Rightarrow> string" where
  "ToLower s = concat (map (\<lambda>r. EncodeRune (unicode_ToLower r)) (runes s))"

text \<open>Go's \<^verbatim>\<open><=\<close> on strings: the lexicographic order of the bytes.\<close>

fun string_le :: "string \<Rightarrow> string \<Rightarrow> bool" where
  "string_le [] ys = True"
| "string_le (x # xs) [] = False"
| "string_le (x # xs) (y # ys) =
     (if (of_char x :: nat) < of_char y then True
      else if (of_char y :: nat) < of_char x then False
      else string_le xs ys)"

text \<open>\<^verbatim>\<open>strings.Split(s, ".")\<close> and \<^verbatim>\<open>filepath.Base\<close> (Unix).\<close>

fun Split :: "char \<Rightarrow> string \<Rightarrow> string list" where
  "Split sep [] = [[]]"
| "Split sep (c # cs) =
     (if c = sep then [] # Split sep cs
      else (case Split sep cs of
              p # ps \<Rightarrow> (c # p) # ps
            | [] \<Rightarrow> [[c]]))"

definition Base :: "string \<Rightarrow> string" where
  "Base path =
     (if path = '''' then ''.''
      else
        (let stripped = rev (dropWhile (\<lambda>c. c = CHR ''/'') (rev path));
             element = rev (takeWhile (\<lambda>c. c \<noteq> CHR ''/'') (rev stripped))
         in if element = '''' then ''/'' else element))"

section \<open>Thumbnail cache: the path functions\<close>

definition getSubdirectory :: "string \<Rightarrow> string" where
  "getSubdirectory username =
     (if username = '''' then ''other''
      else (case runes username of
              [] \<Rightarrow> ''other''
            | r # _ \<Rightarrow>
                (let firstChar = ToLower (EncodeRune r) in
                 if string_le ''a'' firstChar \<and> string_le firstChar ''z'' then firstChar
                 else ''other'')))"

definition image_extensions :: "string list" where
  "image_extensions = [''jpg'', ''jpeg'', ''png'', ''gif'', ''webp'', ''bmp'', ''tiff'', ''svg'']"

definition extractExtension :: "golib \<Rightarrow> string \<Rightarrow> string" where
  "extractExtension L imageURL =
     (case url_Path L imageURL of
        None \<Rightarrow> ''.png''
      | Some path \<Rightarrow>
          if path = '''' then ''.png''
          else
            (let lastPart = Base path in
             if CHR ''.'' \<in> set lastPart then
               (let ext = last (Split (CHR ''.'') lastPart) in
                if 0 < length ext \<and> length ext \<le> 5 then
                  (let ext = ToLower ext in
                   if ext \<in> set image_extensions then ''.'' @ ext else ''.png'')
                else ''.png'')
             else ''.png''))"

section \<open>Thumbnail cache: state and operations\<close>

text \<open>
  A \<^verbatim>\<open>time.Time\<close> read on the wall clock: \<open>sec\<close> is the number of seconds
  since January 1 of year 1, a signed 64-bit number, and \<open>nsec\<close> the nanoseconds
  within the second (0 to 999999999). \<^verbatim>\<open>time.Unix(s, 0)\<close> adds the offset
  62135596800 of the Unix epoch to \<open>s\<close> in 64-bit arithmetic, so it wraps around
  for \<open>s\<close> above 9223371974719179007; \<^verbatim>\<open>Time.Unix\<close> subtracts the offset
  again. A \<^verbatim>\<open>time.Duration\<close> is a number of nanoseconds. \<open>elapsed t u\<close> is the
  exact time from \<open>u\<close> to \<open>t\<close>, and \<open>time_Sub\<close> is \<^verbatim>\<open>Time.Sub\<close>: the
  elapsed time, saturated at the ends of the int64 range of a Duration.
\<close>

definition Second :: int where
  "Second = 1000000000"

definition Minute :: int where
  "Minute = 60 * Second"

definition minDuration :: int where
  "minDuration = - (2 ^ 63)"

definition maxDuration :: int where
  "maxDuration = 2 ^ 63 - 1"

record Time =
  sec :: "64 word"
  nsec :: int

definition unixToInternal :: "64 word" where
  "unixToInternal = 62135596800"

definition time_Unix :: "64 word \<Rightarrow> Time" where
  "time_Unix s = \<lparr>sec = s + unixToInternal, nsec = 0\<rparr>"

definition Unix :: "Time \<Rightarrow> 64 word" where
  "Unix t = sec t - unixToInternal"

definition elapsed :: "Time \<Rightarrow> Time \<Rightarrow> int" where
  "elapsed t u = (sint (sec t) - sint (sec u)) * Second + (nsec t - nsec u)"

definition time_Sub :: "Time \<Rightarrow> Time \<Rightarrow> int" where
  "time_Sub t u =
     (if elapsed t u < minDuration then minDuration
      else if maxDuration < elapsed t u then maxDuration
      else elapsed t u)"

record ThumbnailCache =
  cacheDir :: string

record ThumbnailRecord =
  Username :: string
  SHA256 :: string
  FileSize :: int
  DownloadTimestamp :: Time
  ImageURL :: string
  FileExtension :: string

text \<open>
  A row of the table \<^verbatim>\<open>thumbnails\<close> without its primary key \<^verbatim>\<open>username\<close>:
  the table is a map from the key to the other columns. The timestamp is the stored
  64-bit integer, as it is scanned into an int64.
\<close>

record thumbnail_row =
  sha256 :: string
  file_size :: int
  download_timestamp :: "64 word"
  image_url :: string
  file_extension :: string

text \<open>
  The state the cache works on: the regular files of the file system by path, the
  table, and the URLs \<^verbatim>\<open>http.Get\<close> has been called with so far.
\<close>

record world =
  disk :: "string \<Rightarrow> string option"
  thumbnails :: "string \<Rightarrow> thumbnail_row option"
  requests :: "string list"

datatype http_reply = TransportError | Reply nat string

text \<open>
  What the outside world answers during one call of \<^verbatim>\<open>DownloadAndStore\<close>, one
  field for each call that can fail in the source: the two SELECT queries, the clock read
  by \<^verbatim>\<open>time.Since\<close>, \<^verbatim>\<open>os.MkdirAll\<close>, \<^verbatim>\<open>http.Get\<close> (a transport error, or
  a status code and a body), \<^verbatim>\<open>os.Create\<close>, \<^verbatim>\<open>io.Copy\<close>, \<^verbatim>\<open>os.Stat\<close>,
  opening and reading the file for its hash, the clock read for the new record, the
  INSERT or UPDATE statement, and \<^verbatim>\<open>RowsAffected\<close>.
\<close>

record cache_env =
  exists_query_fails :: bool
  info_query_fails :: bool
  now_since :: Time
  mkdir_fails :: bool
  http_Get :: "string \<Rightarrow> http_reply"
  create_fails :: bool
  copy_fails :: bool
  stat_fails :: bool
  hash_fails :: bool
  now_record :: Time
  exec_fails :: bool
  rows_affected_fails :: bool

datatype cache_error =
    ExistsCheckError
  | RefreshCheckError
  | QueryError
  | MkdirError
  | DownloadError
  | HttpStatusError nat
  | CreateError
  | WriteError
  | StatError
  | HashError
  | AlreadyExists
  | InsertError
  | UpdateError
  | RowsAffectedError
  | NoRowUpdated

definition ThumbnailExists :: "cache_env \<Rightarrow> world \<Rightarrow> string \<Rightarrow> cache_error + bool" where
  "ThumbnailExists env w username =
     (if exists_query_fails env then Inl QueryError
      else Inr (thumbnails w username \<noteq> None))"

definition GetThumbnailInfo ::
  "cache_env \<Rightarrow> world \<Rightarrow> string \<Rightarrow> cache_error + ThumbnailRecord option" where
  "GetThumbnailInfo env w username =
     (if info_query_fails env then Inl QueryError
      else (case thumbnails w username of
              None \<Rightarrow> Inr None
            | Some row \<Rightarrow>
                Inr (Some \<lparr>Username = username,
                           SHA256 = sha256 row,
                           FileSize = file_size row,
                           DownloadTimestamp = time_Unix (download_timestamp row),
                           ImageURL = image_url row,
                           FileExtension = file_extension row\<rparr>)))"

definition NeedsRefresh :: "cache_env \<Rightarrow> world \<Rightarrow> string \<Rightarrow> cache_error + bool" where
  "NeedsRefresh env w username =
     (case GetThumbnailInfo env w username of
        Inl err \<Rightarrow> Inl err
      | Inr None \<Rightarrow> Inr False
      | Inr (Some record) \<Rightarrow>
          (let age = time_Sub (now_since env) (DownloadTimestamp record) in
           Inr (5 * Minute < age)))"

definition GetFilePath :: "golib \<Rightarrow> ThumbnailCache \<Rightarrow> string \<Rightarrow> string \<Rightarrow> string" where
  "GetFilePath L tc username extension =
     (let subdir = getSubdirectory username in
      Join L [cacheDir tc, subdir, username @ extension])"

text \<open>
  The file operations. \<^verbatim>\<open>os.Create\<close> truncates the file at the path or creates it
  empty; \<^verbatim>\<open>os.Remove\<close>, whose result the source discards, deletes it.
  \<^verbatim>\<open>os.Stat\<close> and \<^verbatim>\<open>calculateSHA256\<close> read the file that is on disk.
\<close>

definition os_Create :: "world \<Rightarrow> string \<Rightarrow> world" where
  "os_Create w path = w\<lparr>disk := (disk w)(path \<mapsto> '''')\<rparr>"

definition os_Remove :: "world \<Rightarrow> string \<Rightarrow> world" where
  "os_Remove w path = w\<lparr>disk := (disk w)(path := None)\<rparr>"

definition write_file :: "world \<Rightarrow> string \<Rightarrow> string \<Rightarrow> world" where
  "write_file w path bytes = w\<lparr>disk := (disk w)(path \<mapsto> bytes)\<rparr>"

definition stat_Size :: "cache_env \<Rightarrow> world \<Rightarrow> string \<Rightarrow> int option" where
  "stat_Size env w path =
     (if stat_fails env then None
      else (case disk w path of
              None \<Rightarrow> None
            | Some bytes \<Rightarrow> Some (int (length bytes))))"

definition calculateSHA256 :: "golib \<Rightarrow> cache_env \<Rightarrow> world \<Rightarrow> string \<Rightarrow> string option" where
  "calculateSHA256 L env w filePath =
     (if hash_fails env then None
      else (case disk w filePath of
              None \<Rightarrow> None
            | Some bytes \<Rightarrow> Some (sha256_hex L bytes)))"

text \<open>
  The writes to the table. The statement fails as a whole, or (for the INSERT) violates
  the UNIQUE constraint of the primary key, or writes the row; \<^verbatim>\<open>RowsAffected\<close>
  can then fail although the row is written. An INSERT that succeeded has affected one
  row, so the source's test for zero rows never fires after it; an UPDATE affects no row
  when no row has the key.
\<close>

definition insertThumbnail ::
  "cache_env \<Rightarrow> world \<Rightarrow> ThumbnailRecord \<Rightarrow> cache_error option \<times> world" where
  "insertThumbnail env w record =
     (let timestamp = Unix (DownloadTimestamp record) in
      if exec_fails env then (Some InsertError, w)
      else if thumbnails w (Username record) \<noteq> None then (Some AlreadyExists, w)
      else
        (let w' = w\<lparr>thumbnails := (thumbnails w)(Username record \<mapsto>
                       \<lparr>sha256 = SHA256 record,
                        file_size = FileSize record,
                        download_timestamp = timestamp,
                        image_url = ImageURL record,
                        file_extension = FileExtension record\<rparr>)\<rparr>
         in if rows_affected_fails env then (Some RowsAffectedError, w')
            else (None, w')))"

definition updateThumbnail ::
  "cache_env \<Rightarrow> world \<Rightarrow> ThumbnailRecord \<Rightarrow> cache_error option \<times> world" where
  "updateThumbnail env w record =
     (let timestamp = Unix (DownloadTimestamp record) in
      if exec_fails env then (Some UpdateError, w)
      else (case thumbnails w (Username record) of
              None \<Rightarrow>
                if rows_affected_fails env then (Some RowsAffectedError, w)
                else (Some NoRowUpdated, w)
            | Some old \<Rightarrow>
                (let w' = w\<lparr>thumbnails := (thumbnails w)(Username record \<mapsto>
                               \<lparr>sha256 = SHA256 record,
                                file_size = FileSize record,
                                download_timestamp = timestamp,
                                image_url = ImageURL record,
                                file_extension = FileExtension record\<rparr>)\<rparr>
                 in if rows_affected_fails env then (Some RowsAffectedError, w')
                    else (None, w'))))"

definition downloadImageFile ::
  "golib \<Rightarrow> cache_env \<Rightarrow> ThumbnailCache \<Rightarrow> world \<Rightarrow> string \<Rightarrow> string \<Rightarrow> string \<Rightarrow>
     (cache_error + string \<times> int \<times> string) \<times> world" where
  "downloadImageFile L env tc w imageURL username extension =
     (let subdir = getSubdirectory username;
          subdirPath = Join L [cacheDir tc, subdir]
      in if mkdir_fails env then (Inl MkdirError, w)
         else
           (let filePath = Join L [subdirPath, username @ extension];
                w1 = w\<lparr>requests := requests w @ [imageURL]\<rparr>
            in case http_Get env imageURL of
                 TransportError \<Rightarrow> (Inl DownloadError, w1)
               | Reply status body \<Rightarrow>
                   if status \<noteq> 200 then (Inl (HttpStatusError status), w1)
                   else if create_fails env then (Inl CreateError, w1)
                   else
                     (let w2 = os_Create w1 filePath in
                      if copy_fails env then (Inl WriteError, os_Remove w2 filePath)
                      else
                        (let w3 = write_file w2 filePath body in
                         case stat_Size env w3 filePath of
                           None \<Rightarrow> (Inl StatError, os_Remove w3 filePath)
                         | Some fileSize \<Rightarrow>
                             (case calculateSHA256 L env w3 filePath of
                                None \<Rightarrow> (Inl HashError, os_Remove w3 filePath)
                              | Some sha256Hash \<Rightarrow>
                                  (Inr (filePath, fileSize, sha256Hash), w3))))))"

definition DownloadAndStore ::
  "golib \<Rightarrow> cache_env \<Rightarrow> ThumbnailCache \<Rightarrow> world \<Rightarrow> string \<Rightarrow> string \<Rightarrow>
     cache_error option \<times> world" where
  "DownloadAndStore L env tc w imageURL username0 =
     (let username = (if username0 = '''' then ''unknown'' else username0) in
      case ThumbnailExists env w username of
        Inl err \<Rightarrow> (Some ExistsCheckError, w)
      | Inr exists \<Rightarrow>
          if exists then
            (case NeedsRefresh env w username of
               Inl err \<Rightarrow> (Some RefreshCheckError, w)
             | Inr needsRefresh \<Rightarrow>
                 if \<not> needsRefresh then (None, w)
                 else
                   (let extension = extractExtension L imageURL in
                    case downloadImageFile L env tc w imageURL username extension of
                      (Inl err, w1) \<Rightarrow> (Some err, w1)
                    | (Inr (filePath, fileSize, sha256Hash), w1) \<Rightarrow>
                        (let record = \<lparr>Username = username,
                                       SHA256 = sha256Hash,
                                       FileSize = fileSize,
                                       DownloadTimestamp = now_record env,
                                       ImageURL = imageURL,
                                       FileExtension = extension\<rparr>
                         in case updateThumbnail env w1 record of
                              (Some err, w2) \<Rightarrow> (Some err, os_Remove w2 filePath)
                            | (None, w2) \<Rightarrow> (None, w2))))
          else
            (let extension = extractExtension L imageURL in
             case downloadImageFile L env tc w imageURL username extension of
               (Inl err, w1) \<Rightarrow> (Some err, w1)
             | (Inr (filePath, fileSize, sha256Hash), w1) \<Rightarrow>
                 (let record = \<lparr>Username = username,
                                SHA256 = sha256Hash,
                                FileSize = fileSize,
                                DownloadTimestamp = now_record env,
                                ImageURL = imageURL,
                                FileExtension = extension\<rparr>
                  in case insertThumbnail env w1 record of
                       (Some err, w2) \<Rightarrow> (Some err, os_Remove w2 filePath)
                     | (None, w2) \<Rightarrow> (None, w2))))"

section \<open>Thumbnail cache: calls that run at the same time\<close>

text \<open>
  \<^verbatim>\<open>outputEvent\<close> starts every call of \<^verbatim>\<open>DownloadAndStore\<close> in a goroutine
  of its own, and the mutex of the cache is held only inside each query and each
  INSERT or UPDATE. Between these operations another call can run. A call is therefore
  also modelled in steps, with the place it has reached: the existence check, the
  refresh check, the download, the insert or update with its cleanup, and the return.
  Each step is one stretch of the code of \<^verbatim>\<open>DownloadAndStore\<close>, run on the state
  the calls share.
\<close>

datatype place =
    AtStart
  | AtRefreshCheck
  | AtDownload bool
  | AtUpsert bool string int string
  | Returned "cache_error option"

record call =
  call_env :: cache_env
  call_url :: string
  call_user :: string
  call_place :: place

definition step_call :: "golib \<Rightarrow> ThumbnailCache \<Rightarrow> call \<Rightarrow> world \<Rightarrow> call \<times> world" where
  "step_call L tc c w =
     (let env = call_env c; imageURL = call_url c;
          username = (if call_user c = '''' then ''unknown'' else call_user c)
      in case call_place c of
           AtStart \<Rightarrow>
             (case ThumbnailExists env w username of
                Inl err \<Rightarrow> (c\<lparr>call_place := Returned (Some ExistsCheckError)\<rparr>, w)
              | Inr exists \<Rightarrow>
                  if exists then (c\<lparr>call_place := AtRefreshCheck\<rparr>, w)
                  else (c\<lparr>call_place := AtDownload False\<rparr>, w))
         | AtRefreshCheck \<Rightarrow>
             (case NeedsRefresh env w username of
                Inl err \<Rightarrow> (c\<lparr>call_place := Returned (Some RefreshCheckError)\<rparr>, w)
              | Inr needsRefresh \<Rightarrow>
                  if \<not> needsRefresh then (c\<lparr>call_place := Returned None\<rparr>, w)
                  else (c\<lparr>call_place := AtDownload True\<rparr>, w))
         | AtDownload refresh \<Rightarrow>
             (let extension = extractExtension L imageURL in
              case downloadImageFile L env tc w imageURL username extension of
                (Inl err, w1) \<Rightarrow> (c\<lparr>call_place := Returned (Some err)\<rparr>, w1)
              | (Inr (filePath, fileSize, sha256Hash), w1) \<Rightarrow>
                  (c\<lparr>call_place := AtUpsert refresh filePath fileSize sha256Hash\<rparr>, w1))
         | AtUpsert refresh filePath fileSize sha256Hash \<Rightarrow>
             (let record = \<lparr>Username = username,
                            SHA256 = sha256Hash,
                            FileSize = fileSize,
                            DownloadTimestamp = now_record env,
                            ImageURL = imageURL,
                            FileExtension = extractExtension L imageURL\<rparr>
              in case (if refresh then updateThumbnail env w record
                       else insertThumbnail env w record) of
                   (Some err, w2) \<Rightarrow>
                     (c\<lparr>call_place := Returned (Some err)\<rparr>, os_Remove w2 filePath)
                 | (None, w2) \<Rightarrow> (c\<lparr>call_place := Returned None\<rparr>, w2))
         | Returned result \<Rightarrow> (c, w))"

text \<open>
  A schedule names, step by step, the call that runs next; \<open>run\<close> runs the calls
  in that order. A call run alone takes at most four steps.
\<close>

fun run :: "golib \<Rightarrow> ThumbnailCache \<Rightarrow> nat list \<Rightarrow> call list \<Rightarrow> world \<Rightarrow> call list \<times> world" where
  "run L tc [] calls w = (calls, w)"
| "run L tc (i # schedule) calls w =
     (if i < length calls then
        (case step_call L tc (calls ! i) w of
           (c, w1) \<Rightarrow> run L tc schedule (calls[i := c]) w1)
      else run L tc schedule calls w)"

definition run_alone :: "golib \<Rightarrow> ThumbnailCache \<Rightarrow> call \<Rightarrow> world \<Rightarrow> call \<times> world" where
  "run_alone L tc c w =
     (case step_call L tc c w of
        (c1, w1) \<Rightarrow>
          (case step_call L tc c1 w1 of
             (c2, w2) \<Rightarrow>
               (case step_call L tc c2 w2 of
                  (c3, w3) \<Rightarrow> step_call L tc c3 w3)))"

section \<open>Event source\<close>

record Credentials =
  ClientID :: string
  ClientSecret :: string

record Server =
  credentials :: Credentials
  thumbCache :: "ThumbnailCache option"

datatype log_line =
    Connected
  | SentSubscription
  | ConnectionClosed
  | Subscribed
  | SubscriptionRejected
  | EventReceived string
  | MarshalEventFailed

text \<open>
  What a call of \<^verbatim>\<open>outputEvent\<close> does, in order: the lines it logs, and the
  goroutines it starts, each a call of \<^verbatim>\<open>DownloadAndStore\<close> with its two arguments.
\<close>

datatype effect = Log log_line | Go_DownloadAndStore string string

text \<open>
  \<^verbatim>\<open>outputEvent\<close>, in parts: \<open>thumbnail_username\<close> is the choice of the
  variable \<^verbatim>\<open>username\<close>, \<open>cache_thumbnail\<close> the block that looks for the
  author's thumbnail, \<open>output_raw\<close> the output of the raw event at the end.
\<close>

definition thumbnail_username :: "jmap \<Rightarrow> string" where
  "thumbnail_username author =
     (case assert_string (author ''slug'') of
        Some slug \<Rightarrow> slug
      | None \<Rightarrow>
          (case assert_string (author ''username'') of
             Some usr \<Rightarrow> usr
           | None \<Rightarrow> ''unknown''))"

definition cache_thumbnail :: "Server \<Rightarrow> jmap \<Rightarrow> effect list" where
  "cache_thumbnail s msg =
     (case assert_map (msg ''message'') of
        Some message \<Rightarrow>
          (case assert_map (message ''author'') of
             Some author \<Rightarrow>
               (case assert_string (author ''signedPhotoThumbUrl'') of
                  Some thumbURL \<Rightarrow>
                    if thumbURL \<noteq> '''' then
                      (let username = thumbnail_username author in
                       if thumbCache s \<noteq> None then [Go_DownloadAndStore thumbURL username]
                       else [])
                    else []
                | None \<Rightarrow> [])
           | None \<Rightarrow> [])
      | None \<Rightarrow> [])"

definition output_raw :: "golib \<Rightarrow> jmap \<Rightarrow> effect list" where
  "output_raw L msg =
     (case MarshalIndent L msg of
        None \<Rightarrow> [Log MarshalEventFailed]
      | Some eventJSON \<Rightarrow> [Log (EventReceived eventJSON)])"

definition outputEvent :: "golib \<Rightarrow> Server \<Rightarrow> jmap \<Rightarrow> effect list" where
  "outputEvent L s msg =
     (case assert_string (msg ''type'') of
        Some msgType \<Rightarrow>
          if msgType = ''confirm_subscription'' then [Log Subscribed]
          else if msgType = ''reject_subscription'' then [Log SubscriptionRejected]
          else if msgType = ''ping'' then []
          else cache_thumbnail s msg @ output_raw L msg
      | None \<Rightarrow> cache_thumbnail s msg @ output_raw L msg)"

text \<open>
  The read loop of \<^verbatim>\<open>ConnectToWebSocket\<close>. The socket delivers a sequence of
  frames, each a decoded message or a failure of \<^verbatim>\<open>ReadJSON\<close>. The loop returns
  only on a failed read; when the frames run out it is still blocked in the next
  read, and the result is \<open>None\<close>.
\<close>

datatype ws_error = MissingCredentials | DialError | SubscribeError | ReadError

datatype frame = ReadFails | Message jmap

fun listen :: "golib \<Rightarrow> Server \<Rightarrow> frame list \<Rightarrow> effect list \<times> ws_error option" where
  "listen L s [] = ([], None)"
| "listen L s (ReadFails # rest) = ([Log ConnectionClosed], Some ReadError)"
| "listen L s (Message msg # rest) =
     (case listen L s rest of
        (effects, result) \<Rightarrow> (outputEvent L s msg @ effects, result))"

record ws_env =
  dial_fails :: bool
  subscribe_fails :: bool
  frames :: "frame list"

definition ConnectToWebSocket ::
  "golib \<Rightarrow> Server \<Rightarrow> ws_env \<Rightarrow> effect list \<times> ws_error option" where
  "ConnectToWebSocket L s env =
     (if ClientID (credentials s) = '''' \<or> ClientSecret (credentials s) = '''' then
        ([], Some MissingCredentials)
      else if dial_fails env then ([], Some DialError)
      else if subscribe_fails env then ([Log Connected], Some SubscribeError)
      else (case listen L s (frames env) of
              (effects, result) \<Rightarrow> (Log Connected # Log SentSubscription # effects, result)))"

section \<open>The specification's words\<close>

text \<open>
  The field \<open>inner\<close> of the object stored under \<open>outer\<close>, as in the specification's
  \<^verbatim>\<open>message.event\<close> and \<^verbatim>\<open>message.type\<close>.
\<close>

definition nested_field :: "jmap \<Rightarrow> string \<Rightarrow> string \<Rightarrow> json option" where
  "nested_field msg outer inner =
     (case msg outer of
        Some (JObj m) \<Rightarrow> m inner
      | _ \<Rightarrow> None)"

text \<open>
  Actor resolution as the specification words it: three sources in a fixed order, the
  first match wins, and a source counts only when it is a string that is not empty.
\<close>

definition present :: "json option \<Rightarrow> string option" where
  "present v =
     (case v of
        Some (JStr s) \<Rightarrow> if s = '''' then None else Some s
      | _ \<Rightarrow> None)"

fun first_match :: "string option list \<Rightarrow> string option" where
  "first_match [] = None"
| "first_match (Some a # rest) = Some a"
| "first_match (None # rest) = first_match rest"

definition parsed_metadata :: "golib \<Rightarrow> jmap \<Rightarrow> jmap" where
  "parsed_metadata L message =
     (case present (message ''metadata'') of
        None \<Rightarrow> Map.empty
      | Some s \<Rightarrow> (case Unmarshal L s of None \<Rightarrow> Map.empty | Some obj \<Rightarrow> obj))"

definition actor_by_priority :: "golib \<Rightarrow> jmap \<Rightarrow> string option" where
  "actor_by_priority L message =
     first_match
       [present (nested_field message ''author'' ''slug''),
        present (nested_field message ''author'' ''username''),
        present (parsed_metadata L message ''who'')]"

text \<open>
  The key a call of \<^verbatim>\<open>DownloadAndStore\<close> works under (the empty actor stands
  for "unknown"), and the path \<^verbatim>\<open>downloadImageFile\<close> writes to.
\<close>

definition cache_key :: "string \<Rightarrow> string" where
  "cache_key username = (if username = '''' then ''unknown'' else username)"

definition download_path :: "golib \<Rightarrow> ThumbnailCache \<Rightarrow> string \<Rightarrow> string \<Rightarrow> string" where
  "download_path L tc username extension =
     Join L [Join L [cacheDir tc, getSubdirectory username], username @ extension]"

section \<open>Example inputs\<close>

text \<open>
  Concrete inputs for the examples below, with an instance of the library parameters
  that answers for these inputs only.
\<close>

definition follow_msg :: jmap where
  "follow_msg =
     [''message'' \<mapsto> JObj [''event'' \<mapsto> JStr ''StreamEvent'',
                              ''type'' \<mapsto> JStr ''Followed'',
                              ''author'' \<mapsto> JObj [''slug'' \<mapsto> JStr ''tyrm'']]]"

definition follow_json :: string where
  "follow_json =
     ''{\"message\":{\"author\":{\"slug\":\"tyrm\"},\"event\":\"StreamEvent\",\"type\":\"Followed\"}}''"

definition bare_stream_msg :: jmap where
  "bare_stream_msg = [''message'' \<mapsto> JObj [''event'' \<mapsto> JStr ''StreamEvent'']]"

definition untyped_stream_msg :: jmap where
  "untyped_stream_msg =
     [''type'' \<mapsto> JStr '''',
      ''message'' \<mapsto> JObj [''event'' \<mapsto> JStr ''StreamEvent'']]"

definition tip_msg :: jmap where
  "tip_msg =
     [''message'' \<mapsto> JObj [''event'' \<mapsto> JStr ''StreamEvent'',
                              ''type'' \<mapsto> JStr ''Tipped'',
                              ''author'' \<mapsto> JObj [''slug'' \<mapsto> JStr '''',
                                                     ''username'' \<mapsto> JStr ''''],
                              ''metadata'' \<mapsto> JStr ''{\"who\":\"carol\"}'']]"

definition reject_msg :: jmap where
  "reject_msg = [''type'' \<mapsto> JStr ''reject_subscription'']"

definition confirm_msg :: jmap where
  "confirm_msg = [''type'' \<mapsto> JStr ''confirm_subscription'']"

definition thumb_url :: string where
  "thumb_url = ''https://cdn/x/avatar.jpeg?sig=1''"

definition chat_msg :: jmap where
  "chat_msg =
     [''message'' \<mapsto> JObj [''type'' \<mapsto> JStr ''ChatMessage'',
                              ''author'' \<mapsto> JObj [''slug'' \<mapsto> JStr '''',
                                                     ''username'' \<mapsto> JStr ''bob'',
                                                     ''signedPhotoThumbUrl'' \<mapsto> JStr thumb_url]]]"

definition example_Unmarshal :: "string \<Rightarrow> jmap option" where
  "example_Unmarshal s =
     (if s = ''{\"who\":\"carol\"}'' then Some [''who'' \<mapsto> JStr ''carol''] else None)"

definition example_Marshal :: "jmap \<Rightarrow> string option" where
  "example_Marshal m = (if m = follow_msg then Some follow_json else None)"

definition example_sha256 :: "string \<Rightarrow> string" where
  "example_sha256 bytes = ''sha256 of '' @ bytes"

definition example_url_Path :: "string \<Rightarrow> string option" where
  "example_url_Path u = (if u = thumb_url then Some ''/x/avatar.jpeg'' else None)"

fun example_Join :: "string list \<Rightarrow> string" where
  "example_Join [] = ''''"
| "example_Join [p] = p"
| "example_Join (p # q # ps) = p @ ''/'' @ example_Join (q # ps)"

definition example_lib :: golib where
  "example_lib =
     \<lparr>Unmarshal = example_Unmarshal,
      Marshal = example_Marshal,
      MarshalIndent = example_Marshal,
      sha256_hex = example_sha256,
      url_Path = example_url_Path,
      Join = example_Join\<rparr>"

definition example_store_env :: store_env where
  "example_store_env = \<lparr>now_unix = 1700000000, insert_fails = False\<rparr>"

definition empty_table :: event_table where
  "empty_table = \<lparr>stream_events = [], last_rowid = 0\<rparr>"

definition example_cache :: ThumbnailCache where
  "example_cache = \<lparr>cacheDir = ''./thumbcache''\<rparr>"

definition example_server :: Server where
  "example_server =
     \<lparr>credentials = \<lparr>ClientID = ''id'', ClientSecret = ''secret''\<rparr>,
      thumbCache = Some example_cache\<rparr>"

text \<open>
  A cache holding one thumbnail for "Bob", downloaded at second 1700000000, and an
  environment in which every call succeeds at a given time of day.
\<close>

definition bob_path :: string where
  "bob_path = ''./thumbcache/b/Bob.jpeg''"

definition bob_row :: thumbnail_row where
  "bob_row =
     \<lparr>sha256 = example_sha256 ''old bytes'',
      file_size = 9,
      download_timestamp = 1700000000,
      image_url = thumb_url,
      file_extension = ''.jpeg''\<rparr>"

definition bob_world :: world where
  "bob_world =
     \<lparr>disk = [bob_path \<mapsto> ''old bytes''],
      thumbnails = [''Bob'' \<mapsto> bob_row],
      requests = []\<rparr>"

definition empty_world :: world where
  "empty_world = \<lparr>disk = Map.empty, thumbnails = Map.empty, requests = []\<rparr>"

definition example_http :: "string \<Rightarrow> http_reply" where
  "example_http u = (if u = thumb_url then Reply 200 ''new bytes'' else TransportError)"

definition good_env :: "Time \<Rightarrow> cache_env" where
  "good_env now =
     \<lparr>exists_query_fails = False,
      info_query_fails = False,
      now_since = now,
      mkdir_fails = False,
      http_Get = example_http,
      create_fails = False,
      copy_fails = False,
      stat_fails = False,
      hash_fails = False,
      now_record = now,
      exec_fails = False,
      rows_affected_fails = False\<rparr>"

definition two_minutes_later :: Time where
  "two_minutes_later = time_Unix (1700000000 + 120)"

definition ten_minutes_later :: Time where
  "ten_minutes_later = time_Unix (1700000000 + 600)"

text \<open>
  Two calls for "Bob" that start ten minutes after the download, the second of which
  is served a newer picture under the same URL.
\<close>

definition example_http_newer :: "string \<Rightarrow> http_reply" where
  "example_http_newer u = (if u = thumb_url then Reply 200 ''newer bytes'' else TransportError)"

definition first_call :: call where
  "first_call =
     \<lparr>call_env = good_env ten_minutes_later,
      call_url = thumb_url,
      call_user = ''Bob'',
      call_place = AtStart\<rparr>"

definition second_call :: call where
  "second_call =
     \<lparr>call_env = (good_env ten_minutes_later)\<lparr>http_Get := example_http_newer\<rparr>,
      call_url = thumb_url,
      call_user = ''Bob'',
      call_place = AtStart\<rparr>"

section \<open>Properties\<close>

subsection \<open>Durability and the event store\<close>

lemma IsStreamEvent_nested:
  "IsStreamEvent msg = (nested_field msg ''message'' ''event'' = Some (JStr ''StreamEvent''))"
  unfolding IsStreamEvent_def nested_field_def
  by (auto split: option.splits json.splits elim: assert_map.elims assert_string.elims)

lemma follow_msg_durable: "IsStreamEvent follow_msg"
  by (simp add: IsStreamEvent_def follow_msg_def)

lemma follow_msg_info: "ExtractEventInfo L follow_msg = (''Followed'', Some ''tyrm'', True)"
  by (simp add: ExtractEventInfo_def nested_type_def nested_user_def author_user_def
      follow_msg_def)

lemma StoreEvent_skip: "\<not> IsStreamEvent msg \<Longrightarrow> StoreEvent L env db msg = (None, db)"
  by (simp add: StoreEvent_def)

lemma StoreEvent_append:
  assumes "IsStreamEvent msg" and "ExtractEventInfo L msg = (t, u, True)"
    and "Marshal L msg = Some raw" and "\<not> insert_fails env"
  shows "StoreEvent L env db msg =
           (None, db\<lparr>stream_events := stream_events db @
                        [\<lparr>ID = last_rowid db + 1, ReceivedTimestamp = now_unix env,
                          EventType = t, UserWhoPerformedAction = u, RawJSON = raw\<rparr>],
                      last_rowid := last_rowid db + 1\<rparr>)"
  using assms by (simp add: StoreEvent_def)

lemma StoreEvent_fail:
  assumes "IsStreamEvent msg"
    and "\<not> snd (snd (ExtractEventInfo L msg)) \<or> Marshal L msg = None \<or> insert_fails env"
  shows "snd (StoreEvent L env db msg) = db \<and> fst (StoreEvent L env db msg) \<noteq> None"
  using assms by (auto simp: StoreEvent_def split: prod.splits option.splits)

text \<open>
  Claim C1, as amended. \<^verbatim>\<open>IsStreamEvent\<close> holds exactly when the nested field
  \<^verbatim>\<open>message.event\<close> is the string "StreamEvent". \<^verbatim>\<open>StoreEvent\<close> appends exactly
  one row, holding the extracted event type, the extracted actor and the serialized
  message, and returns nil, when the message is a StreamEvent and, in addition,
  \<^verbatim>\<open>ExtractEventInfo\<close> succeeds, \<^verbatim>\<open>json.Marshal\<close> succeeds and the INSERT
  succeeds. When the message is a StreamEvent and one of the three fails, the table is
  left as it was and an error is returned. When the message is not a StreamEvent,
  nothing is written and nil is returned. The follow message of the specification's
  scenario is a StreamEvent and classifies as type "Followed" with actor "tyrm".
\<close>

theorem StoreEvent_appends_one_row:
  "IsStreamEvent msg = (nested_field msg ''message'' ''event'' = Some (JStr ''StreamEvent'')) \<and>
   (IsStreamEvent msg \<and> ExtractEventInfo L msg = (t, u, True) \<and> Marshal L msg = Some raw \<and>
      \<not> insert_fails env \<longrightarrow>
      StoreEvent L env db msg =
        (None, db\<lparr>stream_events := stream_events db @
                     [\<lparr>ID = last_rowid db + 1, ReceivedTimestamp = now_unix env,
                       EventType = t, UserWhoPerformedAction = u, RawJSON = raw\<rparr>],
                   last_rowid := last_rowid db + 1\<rparr>)) \<and>
   (IsStreamEvent msg \<and>
      (\<not> snd (snd (ExtractEventInfo L msg)) \<or> Marshal L msg = None \<or> insert_fails env) \<longrightarrow>
      snd (StoreEvent L env db msg) = db \<and> fst (StoreEvent L env db msg) \<noteq> None) \<and>
   (\<not> IsStreamEvent msg \<longrightarrow> StoreEvent L env db msg = (None, db)) \<and>
   IsStreamEvent follow_msg \<and>
   ExtractEventInfo L follow_msg = (''Followed'', Some ''tyrm'', True)"
  using IsStreamEvent_nested StoreEvent_append StoreEvent_fail StoreEvent_skip
    follow_msg_durable follow_msg_info
  by blast

text \<open>
  The scenario of C1 on an empty table: one row, with type "Followed", actor "tyrm" and
  the serialized message.
\<close>

theorem StoreEvent_appends_one_row_witness:
  "StoreEvent example_lib example_store_env empty_table follow_msg =
     (None, \<lparr>stream_events =
               [\<lparr>ID = 1, ReceivedTimestamp = 1700000000, EventType = ''Followed'',
                 UserWhoPerformedAction = Some ''tyrm'', RawJSON = follow_json\<rparr>],
             last_rowid = 1\<rparr>)"
proof -
  have m: "Marshal example_lib follow_msg = Some follow_json"
    by (simp add: example_lib_def example_Marshal_def)
  have e: "\<not> insert_fails example_store_env"
    by (simp add: example_store_env_def)
  note t = StoreEvent_appends_one_row
    [of follow_msg example_lib "''Followed''" "Some ''tyrm''" follow_json example_store_env
        empty_table]
  from t m e have
    "StoreEvent example_lib example_store_env empty_table follow_msg =
       (None, empty_table\<lparr>stream_events := stream_events empty_table @
                [\<lparr>ID = last_rowid empty_table + 1,
                  ReceivedTimestamp = now_unix example_store_env,
                  EventType = ''Followed'', UserWhoPerformedAction = Some ''tyrm'',
                  RawJSON = follow_json\<rparr>],
              last_rowid := last_rowid empty_table + 1\<rparr>)"
    by blast
  then show ?thesis
    by (simp add: empty_table_def example_store_env_def)
qed

text \<open>
  C1 as it was stated fails on the message \<^verbatim>\<open>{"message":{"event":"StreamEvent"}}\<close>:
  its \<^verbatim>\<open>message.event\<close> is "StreamEvent", there is no type to extract, and
  \<^verbatim>\<open>StoreEvent\<close> returns an error without writing a row.
\<close>

theorem StoreEvent_bare_StreamEvent_counterexample:
  "nested_field bare_stream_msg ''message'' ''event'' = Some (JStr ''StreamEvent'') \<and>
   StoreEvent example_lib example_store_env empty_table bare_stream_msg =
     (Some ExtractFailed, empty_table)"
  by (simp add: StoreEvent_def IsStreamEvent_def ExtractEventInfo_def nested_type_def
      nested_user_def author_user_def metadata_user_def bare_stream_msg_def nested_field_def)

subsection \<open>Classification\<close>

lemma present_assert:
  "present v =
     (case assert_string v of Some s \<Rightarrow> if s \<noteq> '''' then Some s else None | None \<Rightarrow> None)"
  by (cases v rule: assert_string.cases) (simp_all add: present_def)

lemma nested_field_assert:
  "nested_field m outer inner =
     (case assert_map (m outer) of Some a \<Rightarrow> a inner | None \<Rightarrow> None)"
  by (cases "m outer" rule: assert_map.cases) (simp_all add: nested_field_def)

lemma present_None [simp]: "present None = None"
  by (simp add: present_def)

lemma author_user_priority:
  "author_user message =
     first_match [present (nested_field message ''author'' ''slug''),
                  present (nested_field message ''author'' ''username'')]"
  unfolding author_user_def nested_field_assert
  by (simp add: present_assert split: option.splits)

lemma metadata_user_priority:
  "metadata_user L message = present (parsed_metadata L message ''who'')"
  unfolding metadata_user_def parsed_metadata_def
  by (simp add: present_assert split: option.splits)

lemma first_match_Cons:
  "first_match (x # xs) = (case x of Some a \<Rightarrow> Some a | None \<Rightarrow> first_match xs)"
  by (cases x) simp_all

lemma nested_user_priority:
  "msg ''message'' = Some (JObj message) \<Longrightarrow> nested_user L msg = actor_by_priority L message"
  by (simp add: nested_user_def actor_by_priority_def author_user_priority
      metadata_user_priority first_match_Cons split: option.splits)

text \<open>
  Claim C5. For a message with a nested \<^verbatim>\<open>message\<close> object, the actor that
  \<^verbatim>\<open>ExtractEventInfo\<close> resolves is the first of \<^verbatim>\<open>author.slug\<close>,
  \<^verbatim>\<open>author.username\<close> and the \<^verbatim>\<open>who\<close> field of the parsed
  \<^verbatim>\<open>metadata\<close> string that is a non-empty string; a source that is present but
  empty counts as absent. This actor is returned with the nested type and with the
  top-level \<^verbatim>\<open>event\<close> field; the top-level \<^verbatim>\<open>type\<close> field is returned without
  an actor.
\<close>

theorem ExtractEventInfo_actor_priority:
  assumes "msg ''message'' = Some (JObj message)"
  shows "ExtractEventInfo L msg =
           (if nested_type msg \<noteq> '''' then (nested_type msg, actor_by_priority L message, True)
            else (case assert_string (msg ''type'') of
                    Some typeField \<Rightarrow> (typeField, None, True)
                  | None \<Rightarrow>
                      (case assert_string (msg ''event'') of
                         Some event \<Rightarrow> (event, actor_by_priority L message, True)
                       | None \<Rightarrow> ('''', None, False))))"
  using assms nested_user_priority [of msg message L]
  by (simp add: ExtractEventInfo_def)

text \<open>
  An author with an empty slug and an empty username, and metadata naming "carol": the
  resolution falls through both empty fields.
\<close>

theorem ExtractEventInfo_actor_priority_witness:
  "ExtractEventInfo example_lib tip_msg = (''Tipped'', Some ''carol'', True)"
  using ExtractEventInfo_actor_priority
    [of tip_msg "[''event'' \<mapsto> JStr ''StreamEvent'',
                  ''type'' \<mapsto> JStr ''Tipped'',
                  ''author'' \<mapsto> JObj [''slug'' \<mapsto> JStr '''',
                                         ''username'' \<mapsto> JStr ''''],
                  ''metadata'' \<mapsto> JStr ''{\"who\":\"carol\"}'']" example_lib]
  by (simp add: tip_msg_def nested_type_def actor_by_priority_def present_def nested_field_def
      parsed_metadata_def example_lib_def example_Unmarshal_def)

text \<open>
  Claim C6, on the inputs where the code departs from it. A top-level \<^verbatim>\<open>type\<close> or
  \<^verbatim>\<open>event\<close> that is the empty string is returned as the event type with success:
  only the nested type is checked for emptiness. A StreamEvent message whose only type
  is an empty top-level \<^verbatim>\<open>type\<close> is therefore stored, with an empty event type.
\<close>

theorem ExtractEventInfo_empty_type:
  "ExtractEventInfo L [''type'' \<mapsto> JStr ''''] = ('''', None, True) \<and>
   ExtractEventInfo L [''event'' \<mapsto> JStr ''''] = ('''', None, True) \<and>
   IsStreamEvent untyped_stream_msg \<and>
   ExtractEventInfo L untyped_stream_msg = ('''', None, True) \<and>
   StoreEvent L env db untyped_stream_msg =
     (case Marshal L untyped_stream_msg of
        None \<Rightarrow> (Some MarshalFailed, db)
      | Some rawJSON \<Rightarrow>
          if insert_fails env then (Some InsertFailed, db)
          else (None,
                db\<lparr>stream_events := stream_events db @
                      [\<lparr>ID = last_rowid db + 1, ReceivedTimestamp = now_unix env,
                        EventType = '''', UserWhoPerformedAction = None,
                        RawJSON = rawJSON\<rparr>],
                    last_rowid := last_rowid db + 1\<rparr>))"
  by (simp add: StoreEvent_def IsStreamEvent_def ExtractEventInfo_def nested_type_def
      nested_user_def author_user_def metadata_user_def untyped_stream_msg_def
      split: option.splits)

subsection \<open>Thumbnail cache\<close>

lemma downloadImageFile_ok:
  assumes "downloadImageFile L env tc w url u ext = (Inr (fp, sz, h), w1)"
  shows "fp = download_path L tc u ext \<and>
         (\<exists>body. http_Get env url = Reply 200 body \<and>
            disk w1 = (disk w)(fp \<mapsto> body) \<and> sz = int (length body) \<and>
            h = sha256_hex L body) \<and>
         thumbnails w1 = thumbnails w \<and> requests w1 = requests w @ [url]"
  using assms
  unfolding downloadImageFile_def download_path_def Let_def
  by (auto simp: os_Create_def os_Remove_def write_file_def stat_Size_def calculateSHA256_def
      split: if_splits http_reply.splits option.splits)

lemma insertThumbnail_ok:
  assumes "insertThumbnail env w r = (None, w2)"
  shows "w2 = w\<lparr>thumbnails := (thumbnails w)(Username r \<mapsto>
                  \<lparr>sha256 = SHA256 r, file_size = FileSize r,
                   download_timestamp = Unix (DownloadTimestamp r),
                   image_url = ImageURL r, file_extension = FileExtension r\<rparr>)\<rparr>"
  using assms unfolding insertThumbnail_def Let_def by (auto split: if_splits)

lemma updateThumbnail_ok:
  assumes "updateThumbnail env w r = (None, w2)"
  shows "w2 = w\<lparr>thumbnails := (thumbnails w)(Username r \<mapsto>
                  \<lparr>sha256 = SHA256 r, file_size = FileSize r,
                   download_timestamp = Unix (DownloadTimestamp r),
                   image_url = ImageURL r, file_extension = FileExtension r\<rparr>)\<rparr>"
  using assms unfolding updateThumbnail_def Let_def by (auto split: if_splits option.splits)

text \<open>The ways a call of \<^verbatim>\<open>DownloadAndStore\<close> can go.\<close>

lemma time_Sub_gt: "(5 * Minute < time_Sub t u) = (5 * Minute < elapsed t u)"
  by (simp add: time_Sub_def Minute_def Second_def minDuration_def maxDuration_def)

lemma Unix_time_Unix: "Unix (time_Unix s) = s"
  by (simp add: Unix_def time_Unix_def)

text \<open>
  Where \<^verbatim>\<open>time.Unix\<close> is exact and where it wraps around: a stored timestamp of
  9223372036854775807 is read as a time long before year 1.
\<close>

lemma time_Unix_exact:
  assumes "sint s \<le> 9223371974719179007"
  shows "sint (sec (time_Unix s)) = sint s + 62135596800"
proof -
  have "- (2 ^ 63) \<le> sint s"
    using sint_ge [of s] by simp
  with assms show ?thesis
    unfolding time_Unix_def unixToInternal_def
    by (simp add: sint_word_ariths signed_take_bit_int_eq_self)
qed

lemma time_Unix_wraps: "sint (sec (time_Unix 9223372036854775807)) = - 9223371974719179009"
  by (simp add: time_Unix_def unixToInternal_def)

lemma wrapped_timestamp_is_stale:
  "5 * Minute < elapsed ten_minutes_later (time_Unix 9223372036854775807)"
  by (simp add: elapsed_def time_Unix_wraps ten_minutes_later_def time_Unix_def
      unixToInternal_def Minute_def Second_def)

lemma DownloadAndStore_fresh:
  assumes "thumbnails w (cache_key user) = Some row"
    and "\<not> 5 * Minute < elapsed (now_since env) (time_Unix (download_timestamp row))"
  shows "DownloadAndStore L env tc w url user =
           (if exists_query_fails env then (Some ExistsCheckError, w)
            else if info_query_fails env then (Some RefreshCheckError, w)
            else (None, w))"
  using assms
  unfolding DownloadAndStore_def cache_key_def [symmetric] Let_def
  by (simp add: ThumbnailExists_def NeedsRefresh_def GetThumbnailInfo_def time_Sub_gt)

lemma DownloadAndStore_refresh:
  assumes "thumbnails w (cache_key user) = Some row"
    and "5 * Minute < elapsed (now_since env) (time_Unix (download_timestamp row))"
    and "\<not> exists_query_fails env" and "\<not> info_query_fails env"
  shows "DownloadAndStore L env tc w url user =
           (case downloadImageFile L env tc w url (cache_key user) (extractExtension L url) of
              (Inl err, w1) \<Rightarrow> (Some err, w1)
            | (Inr (filePath, fileSize, sha256Hash), w1) \<Rightarrow>
                (case updateThumbnail env w1
                        \<lparr>Username = cache_key user, SHA256 = sha256Hash, FileSize = fileSize,
                         DownloadTimestamp = now_record env, ImageURL = url,
                         FileExtension = extractExtension L url\<rparr> of
                   (Some err, w2) \<Rightarrow> (Some err, os_Remove w2 filePath)
                 | (None, w2) \<Rightarrow> (None, w2)))"
  using assms
  unfolding DownloadAndStore_def cache_key_def [symmetric] Let_def
  by (simp add: ThumbnailExists_def NeedsRefresh_def GetThumbnailInfo_def time_Sub_gt)

lemma DownloadAndStore_new:
  assumes "thumbnails w (cache_key user) = None" and "\<not> exists_query_fails env"
  shows "DownloadAndStore L env tc w url user =
           (case downloadImageFile L env tc w url (cache_key user) (extractExtension L url) of
              (Inl err, w1) \<Rightarrow> (Some err, w1)
            | (Inr (filePath, fileSize, sha256Hash), w1) \<Rightarrow>
                (case insertThumbnail env w1
                        \<lparr>Username = cache_key user, SHA256 = sha256Hash, FileSize = fileSize,
                         DownloadTimestamp = now_record env, ImageURL = url,
                         FileExtension = extractExtension L url\<rparr> of
                   (Some err, w2) \<Rightarrow> (Some err, os_Remove w2 filePath)
                 | (None, w2) \<Rightarrow> (None, w2)))"
  using assms
  unfolding DownloadAndStore_def cache_key_def [symmetric] Let_def
  by (simp add: ThumbnailExists_def)

lemma DownloadAndStore_exists_fails:
  "exists_query_fails env \<Longrightarrow> DownloadAndStore L env tc w url user = (Some ExistsCheckError, w)"
  unfolding DownloadAndStore_def cache_key_def [symmetric] Let_def
  by (simp add: ThumbnailExists_def)

lemma DownloadAndStore_info_fails:
  "\<not> exists_query_fails env \<Longrightarrow> info_query_fails env \<Longrightarrow>
   thumbnails w (cache_key user) = Some row \<Longrightarrow>
   DownloadAndStore L env tc w url user = (Some RefreshCheckError, w)"
  unfolding DownloadAndStore_def cache_key_def [symmetric] Let_def
  by (simp add: ThumbnailExists_def NeedsRefresh_def GetThumbnailInfo_def)

lemma DownloadAndStore_cases:
  obtains (exists_fails) "exists_query_fails env"
   | (info_fails) row where "\<not> exists_query_fails env" "info_query_fails env"
       "thumbnails w (cache_key user) = Some row"
   | (fresh) row where "\<not> exists_query_fails env" "\<not> info_query_fails env"
       "thumbnails w (cache_key user) = Some row"
       "\<not> 5 * Minute < elapsed (now_since env) (time_Unix (download_timestamp row))"
   | (stale) row where "\<not> exists_query_fails env" "\<not> info_query_fails env"
       "thumbnails w (cache_key user) = Some row"
       "5 * Minute < elapsed (now_since env) (time_Unix (download_timestamp row))"
   | (new) "\<not> exists_query_fails env" "thumbnails w (cache_key user) = None"
  by (cases "thumbnails w (cache_key user)") auto

lemma DownloadAndStore_success_download:
  assumes "DownloadAndStore L env tc w url user = (None, w')"
    and "requests w' \<noteq> requests w"
  shows "\<exists>body w1. downloadImageFile L env tc w url (cache_key user) (extractExtension L url) =
            (Inr (download_path L tc (cache_key user) (extractExtension L url),
                  int (length body), sha256_hex L body), w1) \<and>
           disk w1 = (disk w)(download_path L tc (cache_key user) (extractExtension L url) \<mapsto> body) \<and>
           w' = w1\<lparr>thumbnails := (thumbnails w1)(cache_key user \<mapsto>
                  \<lparr>sha256 = sha256_hex L body, file_size = int (length body),
                   download_timestamp = Unix (now_record env),
                   image_url = url, file_extension = extractExtension L url\<rparr>)\<rparr>"
proof (cases rule: DownloadAndStore_cases [where env = env and w = w and user = user])
  case exists_fails
  with assms show ?thesis by (simp add: DownloadAndStore_exists_fails)
next
  case (info_fails row)
  with assms show ?thesis by (simp add: DownloadAndStore_info_fails)
next
  case (fresh row)
  with assms show ?thesis by (simp add: DownloadAndStore_fresh)
next
  case (stale row)
  from assms(1) show ?thesis
    unfolding DownloadAndStore_refresh [OF stale(3) stale(4) stale(1) stale(2)]
    by (auto split: prod.splits sum.splits option.splits
        dest!: downloadImageFile_ok updateThumbnail_ok)
next
  case new
  from assms(1) show ?thesis
    unfolding DownloadAndStore_new [OF new(2) new(1)]
    by (auto split: prod.splits sum.splits option.splits
        dest!: downloadImageFile_ok insertThumbnail_ok)
qed

text \<open>
  A call of \<^verbatim>\<open>DownloadAndStore\<close> that runs from start to end with no other
  call at work: when it returns nil after a network request, the row stored for the
  actor holds the hex SHA-256 digest and the size of the bytes that are on disk at the
  path the download wrote to.
\<close>

lemma DownloadAndStore_alone_round_trip:
  assumes "DownloadAndStore L env tc w url user = (None, w')"
    and "requests w' \<noteq> requests w"
  shows "\<exists>row bytes.
           thumbnails w' (cache_key user) = Some row \<and>
           disk w' (download_path L tc (cache_key user) (extractExtension L url)) = Some bytes \<and>
           sha256 row = sha256_hex L bytes \<and>
           file_size row = int (length bytes) \<and>
           file_extension row = extractExtension L url \<and>
           (Join L [Join L [cacheDir tc, getSubdirectory (cache_key user)],
                    cache_key user @ file_extension row] =
            Join L [cacheDir tc, getSubdirectory (cache_key user),
                    cache_key user @ file_extension row] \<longrightarrow>
            disk w' (GetFilePath L tc (cache_key user) (file_extension row)) = Some bytes)"
  using DownloadAndStore_success_download [OF assms]
  by (auto simp: GetFilePath_def download_path_def)

lemma char_of_b: "char_of (98::nat) = CHR ''b''"
  by (simp add: char_of_def bit_iff_odd_drop_bit)

lemma getSubdirectory_Bob: "getSubdirectory ''Bob'' = ''b''"
  by (simp add: getSubdirectory_def runes_def ToLower_def EncodeRune_def unicode_ToLower_def
      char_of_b)

lemma ToLower_jpeg: "ToLower ''jpeg'' = ''jpeg''"
  by (simp add: runes_def ToLower_def EncodeRune_def unicode_ToLower_def char_of_def
      bit_iff_odd_drop_bit)

lemma extractExtension_thumb_url: "extractExtension example_lib thumb_url = ''.jpeg''"
  by (simp add: extractExtension_def example_lib_def example_url_Path_def Base_def
      image_extensions_def ToLower_jpeg)

lemma bob_download_path: "download_path example_lib example_cache ''Bob'' ''.jpeg'' = bob_path"
  by (simp add: download_path_def example_lib_def example_cache_def getSubdirectory_Bob
      bob_path_def)

lemma example_lib_sha256: "sha256_hex example_lib = example_sha256"
  by (simp add: example_lib_def)

lemma bob_new_eval:
  "DownloadAndStore example_lib (good_env ten_minutes_later) example_cache empty_world
     thumb_url ''Bob'' =
     (None, \<lparr>disk = [bob_path \<mapsto> ''new bytes''],
             thumbnails = [''Bob'' \<mapsto> \<lparr>sha256 = example_sha256 ''new bytes'',
                                          file_size = 9,
                                          download_timestamp = 1700000600,
                                          image_url = thumb_url,
                                          file_extension = ''.jpeg''\<rparr>],
             requests = [thumb_url]\<rparr>)"
  unfolding DownloadAndStore_def downloadImageFile_def Let_def extractExtension_thumb_url
    download_path_def [symmetric] insertThumbnail_def
  by (simp add: ThumbnailExists_def bob_download_path good_env_def empty_world_def
      ten_minutes_later_def example_http_def os_Create_def write_file_def stat_Size_def
      calculateSHA256_def Unix_time_Unix example_lib_sha256)

text \<open>
  Claim C3, as amended. For an actor whose row holds a download timestamp that, read
  with \<^verbatim>\<open>time.Unix\<close> as the cache reads it, is less than five minutes old,
  \<^verbatim>\<open>DownloadAndStore\<close> leaves the whole state as it was: no request is sent,
  no file is written, and the table is unchanged. It returns nil when the two lookups
  of the row succeed, and the error of the lookup when one of them fails.
\<close>

theorem DownloadAndStore_fresh_is_noop:
  assumes "thumbnails w (cache_key user) = Some row"
    and "elapsed (now_since env) (time_Unix (download_timestamp row)) < 5 * Minute"
  shows "snd (DownloadAndStore L env tc w url user) = w \<and>
         fst (DownloadAndStore L env tc w url user) =
           (if exists_query_fails env then Some ExistsCheckError
            else if info_query_fails env then Some RefreshCheckError
            else None)"
proof -
  from assms(2) have
    "\<not> 5 * Minute < elapsed (now_since env) (time_Unix (download_timestamp row))"
    by simp
  from DownloadAndStore_fresh [OF assms(1) this] show ?thesis
    by simp
qed

lemma bob_row_lookup: "thumbnails bob_world (cache_key ''Bob'') = Some bob_row"
  by (simp add: bob_world_def cache_key_def)

lemma bob_two_minutes:
  "elapsed two_minutes_later (time_Unix (download_timestamp bob_row)) = 2 * Minute"
  by (simp add: two_minutes_later_def bob_row_def elapsed_def time_Unix_def
      unixToInternal_def Minute_def Second_def)

lemma bob_ten_minutes:
  "elapsed ten_minutes_later (time_Unix (download_timestamp bob_row)) = 10 * Minute"
  by (simp add: ten_minutes_later_def bob_row_def elapsed_def time_Unix_def
      unixToInternal_def Minute_def Second_def)

text \<open>
  The scenario of C3: the row for "Bob" is two minutes old, and the call returns nil
  with the state unchanged, its list of requests included.
\<close>

theorem DownloadAndStore_fresh_is_noop_witness:
  "DownloadAndStore example_lib (good_env two_minutes_later) example_cache bob_world
     thumb_url ''Bob'' = (None, bob_world)"
proof -
  have age: "elapsed (now_since (good_env two_minutes_later))
               (time_Unix (download_timestamp bob_row)) < 5 * Minute"
    by (simp add: good_env_def bob_two_minutes) (simp add: Minute_def Second_def)
  have ok: "\<not> exists_query_fails (good_env two_minutes_later)"
    "\<not> info_query_fails (good_env two_minutes_later)"
    by (simp_all add: good_env_def)
  from DownloadAndStore_fresh_is_noop
    [OF bob_row_lookup age, of example_lib example_cache thumb_url] ok
  show ?thesis
    by (cases "DownloadAndStore example_lib (good_env two_minutes_later) example_cache
                 bob_world thumb_url ''Bob''") simp
qed

text \<open>
  C3 as it was stated fails when the first lookup fails: the row for "Bob" is two
  minutes old, and the call returns an error, not success.
\<close>

theorem DownloadAndStore_fresh_query_fails_counterexample:
  "thumbnails bob_world ''Bob'' = Some bob_row \<and>
   elapsed two_minutes_later (time_Unix (download_timestamp bob_row)) = 2 * Minute \<and>
   DownloadAndStore example_lib ((good_env two_minutes_later)\<lparr>exists_query_fails := True\<rparr>)
     example_cache bob_world thumb_url ''Bob'' = (Some ExistsCheckError, bob_world)"
  by (simp add: bob_two_minutes DownloadAndStore_exists_fails good_env_def)
    (simp add: bob_world_def)

lemma lookups_row:
  assumes "ThumbnailExists env w u = Inr True"
    and "GetThumbnailInfo env w u = Inr (Some record)"
  shows "\<not> exists_query_fails env \<and> \<not> info_query_fails env \<and>
         (\<exists>row. thumbnails w u = Some row \<and>
            DownloadTimestamp record = time_Unix (download_timestamp row))"
  using assms
  by (auto simp: ThumbnailExists_def GetThumbnailInfo_def split: if_splits option.splits)

lemma bob_lookups:
  "ThumbnailExists (good_env now) bob_world (cache_key ''Bob'') = Inr True"
  "GetThumbnailInfo (good_env now) bob_world (cache_key ''Bob'') =
     Inr (Some \<lparr>Username = ''Bob'', SHA256 = example_sha256 ''old bytes'', FileSize = 9,
                 DownloadTimestamp = time_Unix (download_timestamp bob_row),
                 ImageURL = thumb_url, FileExtension = ''.jpeg''\<rparr>)"
  by (simp_all add: ThumbnailExists_def GetThumbnailInfo_def good_env_def bob_world_def
      bob_row_def cache_key_def)

lemma downloadImageFile_env:
  "downloadImageFile L env tc w url u ext =
     (if mkdir_fails env then (Inl MkdirError, w)
      else (case http_Get env url of
              TransportError \<Rightarrow> (Inl DownloadError, w\<lparr>requests := requests w @ [url]\<rparr>)
            | Reply status body \<Rightarrow>
                if status \<noteq> 200 then
                  (Inl (HttpStatusError status), w\<lparr>requests := requests w @ [url]\<rparr>)
                else if create_fails env then
                  (Inl CreateError, w\<lparr>requests := requests w @ [url]\<rparr>)
                else if copy_fails env then
                  (Inl WriteError,
                   w\<lparr>requests := requests w @ [url],
                     disk := (disk w)(download_path L tc u ext := None)\<rparr>)
                else if stat_fails env then
                  (Inl StatError,
                   w\<lparr>requests := requests w @ [url],
                     disk := (disk w)(download_path L tc u ext := None)\<rparr>)
                else if hash_fails env then
                  (Inl HashError,
                   w\<lparr>requests := requests w @ [url],
                     disk := (disk w)(download_path L tc u ext := None)\<rparr>)
                else
                  (Inr (download_path L tc u ext, int (length body), sha256_hex L body),
                   w\<lparr>requests := requests w @ [url],
                     disk := (disk w)(download_path L tc u ext \<mapsto> body)\<rparr>)))"
  unfolding downloadImageFile_def download_path_def Let_def
  by (simp add: os_Create_def os_Remove_def write_file_def stat_Size_def calculateSHA256_def
      split: http_reply.splits)

text \<open>
  Claim C4, as amended. For an actor for which the cache finds a record older than
  five minutes: when the download fails because the directory cannot be made, the
  request fails in transport, the status is not 200 or the file cannot be created,
  \<^verbatim>\<open>DownloadAndStore\<close> returns an error and leaves the table and every file as
  they were. When the response is 200 and the failure comes while the fetched bytes are
  written (or at the size or hash read after it), it returns an error and leaves the
  table as it was, and the file at the destination path is removed.
\<close>

theorem DownloadAndStore_download_failure:
  assumes "ThumbnailExists env w (cache_key user) = Inr True"
    and "GetThumbnailInfo env w (cache_key user) = Inr (Some record)"
    and "5 * Minute < elapsed (now_since env) (DownloadTimestamp record)"
  shows "(mkdir_fails env \<or> http_Get env url = TransportError \<or>
          (\<exists>status body. http_Get env url = Reply status body \<and> status \<noteq> 200) \<or>
          create_fails env \<longrightarrow>
            fst (DownloadAndStore L env tc w url user) \<noteq> None \<and>
            thumbnails (snd (DownloadAndStore L env tc w url user)) = thumbnails w \<and>
            disk (snd (DownloadAndStore L env tc w url user)) = disk w) \<and>
         (\<not> mkdir_fails env \<and> (\<exists>body. http_Get env url = Reply 200 body) \<and>
          \<not> create_fails env \<and> (copy_fails env \<or> stat_fails env \<or> hash_fails env) \<longrightarrow>
            fst (DownloadAndStore L env tc w url user) \<noteq> None \<and>
            thumbnails (snd (DownloadAndStore L env tc w url user)) = thumbnails w \<and>
            disk (snd (DownloadAndStore L env tc w url user)) =
              (disk w)(download_path L tc (cache_key user) (extractExtension L url) := None))"
proof -
  from lookups_row [OF assms(1,2)] obtain row where
    ok: "\<not> exists_query_fails env" "\<not> info_query_fails env"
    and row: "thumbnails w (cache_key user) = Some row"
    and ts: "DownloadTimestamp record = time_Unix (download_timestamp row)"
    by blast
  from assms(3) have stale: "5 * Minute < elapsed (now_since env) (time_Unix (download_timestamp row))"
    by (simp add: ts)
  show ?thesis
    unfolding DownloadAndStore_refresh [OF row stale ok] downloadImageFile_env
    by (auto split: http_reply.splits)
qed

text \<open>
  The scenario of C4: the record for "Bob" is ten minutes old and the URL cannot be
  reached. The call fails; the row and the file are as before.
\<close>

theorem DownloadAndStore_download_failure_witness:
  "fst (DownloadAndStore example_lib (good_env ten_minutes_later) example_cache bob_world
          ''https://unreachable.invalid/a.png'' ''Bob'') \<noteq> None \<and>
   thumbnails (snd (DownloadAndStore example_lib (good_env ten_minutes_later) example_cache
          bob_world ''https://unreachable.invalid/a.png'' ''Bob'')) ''Bob'' = Some bob_row \<and>
   disk (snd (DownloadAndStore example_lib (good_env ten_minutes_later) example_cache
          bob_world ''https://unreachable.invalid/a.png'' ''Bob'')) bob_path = Some ''old bytes''"
proof -
  have get: "http_Get (good_env ten_minutes_later) ''https://unreachable.invalid/a.png'' =
               TransportError"
    by (simp add: good_env_def example_http_def thumb_url_def)
  have old: "5 * Minute < elapsed (now_since (good_env ten_minutes_later))
          (DownloadTimestamp \<lparr>Username = ''Bob'', SHA256 = example_sha256 ''old bytes'',
             FileSize = 9, DownloadTimestamp = time_Unix (download_timestamp bob_row),
             ImageURL = thumb_url, FileExtension = ''.jpeg''\<rparr>)"
    by (simp add: good_env_def bob_ten_minutes) (simp add: Minute_def Second_def)
  note t = DownloadAndStore_download_failure
    [OF bob_lookups old, of "''https://unreachable.invalid/a.png''" example_lib example_cache]
  from t get have
    "fst (DownloadAndStore example_lib (good_env ten_minutes_later) example_cache bob_world
          ''https://unreachable.invalid/a.png'' ''Bob'') \<noteq> None \<and>
     thumbnails (snd (DownloadAndStore example_lib (good_env ten_minutes_later) example_cache
          bob_world ''https://unreachable.invalid/a.png'' ''Bob'')) = thumbnails bob_world \<and>
     disk (snd (DownloadAndStore example_lib (good_env ten_minutes_later) example_cache
          bob_world ''https://unreachable.invalid/a.png'' ''Bob'')) = disk bob_world"
    by blast
  then show ?thesis
    by (simp add: bob_world_def)
qed

text \<open>
  C4 as it was stated fails when the write of the fetched bytes fails: the row for
  "Bob" stays, and the file that was cached for it is gone.
\<close>

theorem DownloadAndStore_write_failure_counterexample:
  "disk bob_world bob_path = Some ''old bytes'' \<and>
   fst (DownloadAndStore example_lib ((good_env ten_minutes_later)\<lparr>copy_fails := True\<rparr>)
          example_cache bob_world thumb_url ''Bob'') = Some WriteError \<and>
   thumbnails (snd (DownloadAndStore example_lib
          ((good_env ten_minutes_later)\<lparr>copy_fails := True\<rparr>)
          example_cache bob_world thumb_url ''Bob'')) ''Bob'' = Some bob_row \<and>
   disk (snd (DownloadAndStore example_lib
          ((good_env ten_minutes_later)\<lparr>copy_fails := True\<rparr>)
          example_cache bob_world thumb_url ''Bob'')) bob_path = None"
proof -
  have stale:
    "thumbnails bob_world (cache_key ''Bob'') = Some bob_row"
    "5 * Minute < elapsed (now_since ((good_env ten_minutes_later)\<lparr>copy_fails := True\<rparr>))
        (time_Unix (download_timestamp bob_row))"
    "\<not> exists_query_fails ((good_env ten_minutes_later)\<lparr>copy_fails := True\<rparr>)"
    "\<not> info_query_fails ((good_env ten_minutes_later)\<lparr>copy_fails := True\<rparr>)"
    by (simp_all add: bob_row_lookup good_env_def bob_ten_minutes Minute_def Second_def)
  show ?thesis
    unfolding DownloadAndStore_refresh [OF stale] downloadImageFile_env
      extractExtension_thumb_url
    by (simp add: good_env_def example_http_def cache_key_def bob_download_path bob_world_def)
qed

lemma downloadImageFile_error_kind:
  "downloadImageFile L env tc w url u ext = (Inl e, w1) \<Longrightarrow>
     e \<noteq> InsertError \<and> e \<noteq> AlreadyExists \<and> e \<noteq> UpdateError \<and> e \<noteq> NoRowUpdated \<and>
     e \<noteq> RowsAffectedError"
  unfolding downloadImageFile_env
  by (auto split: if_splits http_reply.splits)

text \<open>
  Claim C9. When \<^verbatim>\<open>DownloadAndStore\<close> returns an error of the insert or of the
  update, the download before it had succeeded and had written the fetched bytes to the
  destination path, and in the state the call leaves there is no file at that path.
\<close>

theorem DownloadAndStore_upsert_failure_removes_file:
  assumes "DownloadAndStore L env tc w url user = (Some e, w')"
    and "e = InsertError \<or> e = AlreadyExists \<or> e = UpdateError \<or> e = NoRowUpdated \<or>
         e = RowsAffectedError"
  shows "(\<exists>body w1.
            downloadImageFile L env tc w url (cache_key user) (extractExtension L url) =
              (Inr (download_path L tc (cache_key user) (extractExtension L url),
                    int (length body), sha256_hex L body), w1) \<and>
            disk w1 (download_path L tc (cache_key user) (extractExtension L url)) =
              Some body) \<and>
         disk w' (download_path L tc (cache_key user) (extractExtension L url)) = None"
proof (cases rule: DownloadAndStore_cases [where env = env and w = w and user = user])
  case exists_fails
  with assms show ?thesis by (auto simp: DownloadAndStore_exists_fails)
next
  case (info_fails row)
  with assms show ?thesis by (auto simp: DownloadAndStore_info_fails)
next
  case (fresh row)
  with assms show ?thesis by (simp add: DownloadAndStore_fresh)
next
  case (stale row)
  from assms show ?thesis
    unfolding DownloadAndStore_refresh [OF stale(3) stale(4) stale(1) stale(2)]
    by (auto simp: os_Remove_def split: prod.splits sum.splits option.splits
        dest: downloadImageFile_error_kind downloadImageFile_ok)
next
  case new
  from assms show ?thesis
    unfolding DownloadAndStore_new [OF new(2) new(1)]
    by (auto simp: os_Remove_def split: prod.splits sum.splits option.splits
        dest: downloadImageFile_error_kind downloadImageFile_ok)
qed

lemma bob_insert_fails_eval:
  "DownloadAndStore example_lib ((good_env ten_minutes_later)\<lparr>exec_fails := True\<rparr>)
     example_cache empty_world thumb_url ''Bob'' =
     (Some InsertError, \<lparr>disk = Map.empty, thumbnails = Map.empty, requests = [thumb_url]\<rparr>)"
proof -
  have new:
    "thumbnails empty_world (cache_key ''Bob'') = None"
    "\<not> exists_query_fails ((good_env ten_minutes_later)\<lparr>exec_fails := True\<rparr>)"
    by (simp_all add: empty_world_def good_env_def)
  show ?thesis
    unfolding DownloadAndStore_new [OF new] downloadImageFile_env extractExtension_thumb_url
    by (simp add: good_env_def example_http_def cache_key_def bob_download_path
        empty_world_def insertThumbnail_def os_Remove_def)
qed

text \<open>
  A first download for "Bob" whose INSERT fails: the call returns the error and no
  file is left at \<^verbatim>\<open>./thumbcache/b/Bob.jpeg\<close>.
\<close>

theorem DownloadAndStore_upsert_failure_removes_file_witness:
  "fst (DownloadAndStore example_lib ((good_env ten_minutes_later)\<lparr>exec_fails := True\<rparr>)
          example_cache empty_world thumb_url ''Bob'') = Some InsertError \<and>
   disk (snd (DownloadAndStore example_lib ((good_env ten_minutes_later)\<lparr>exec_fails := True\<rparr>)
          example_cache empty_world thumb_url ''Bob'')) bob_path = None"
  using DownloadAndStore_upsert_failure_removes_file [OF bob_insert_fails_eval]
  by (simp add: bob_insert_fails_eval cache_key_def extractExtension_thumb_url
      bob_download_path)

subsection \<open>Calls that run at the same time\<close>

text \<open>What one step of a call does, by the place the call has reached.\<close>

lemma step_AtStart:
  assumes "call_place c = AtStart"
  shows "step_call L tc c w =
           (if exists_query_fails (call_env c)
            then (c\<lparr>call_place := Returned (Some ExistsCheckError)\<rparr>, w)
            else if thumbnails w (cache_key (call_user c)) \<noteq> None
            then (c\<lparr>call_place := AtRefreshCheck\<rparr>, w)
            else (c\<lparr>call_place := AtDownload False\<rparr>, w))"
  using assms
  unfolding step_call_def cache_key_def [symmetric] Let_def
  by (simp add: ThumbnailExists_def)

lemma step_AtRefreshCheck:
  assumes "call_place c = AtRefreshCheck"
  shows "step_call L tc c w =
           (if info_query_fails (call_env c)
            then (c\<lparr>call_place := Returned (Some RefreshCheckError)\<rparr>, w)
            else case thumbnails w (cache_key (call_user c)) of
                   None \<Rightarrow> (c\<lparr>call_place := Returned None\<rparr>, w)
                 | Some row \<Rightarrow>
                     if 5 * Minute < elapsed (now_since (call_env c))
                                       (time_Unix (download_timestamp row))
                     then (c\<lparr>call_place := AtDownload True\<rparr>, w)
                     else (c\<lparr>call_place := Returned None\<rparr>, w))"
  using assms
  unfolding step_call_def cache_key_def [symmetric] Let_def
  by (simp add: NeedsRefresh_def GetThumbnailInfo_def time_Sub_gt split: option.splits)

lemma step_AtDownload:
  assumes "call_place c = AtDownload refresh"
  shows "step_call L tc c w =
           (case downloadImageFile L (call_env c) tc w (call_url c) (cache_key (call_user c))
                   (extractExtension L (call_url c)) of
              (Inl err, w1) \<Rightarrow> (c\<lparr>call_place := Returned (Some err)\<rparr>, w1)
            | (Inr (filePath, fileSize, sha256Hash), w1) \<Rightarrow>
                (c\<lparr>call_place := AtUpsert refresh filePath fileSize sha256Hash\<rparr>, w1))"
  using assms
  unfolding step_call_def cache_key_def [symmetric] Let_def
  by simp

lemma step_AtUpsert:
  assumes "call_place c = AtUpsert refresh filePath fileSize sha256Hash"
  shows "step_call L tc c w =
           (case (if refresh then updateThumbnail (call_env c) w
                       \<lparr>Username = cache_key (call_user c), SHA256 = sha256Hash,
                        FileSize = fileSize, DownloadTimestamp = now_record (call_env c),
                        ImageURL = call_url c,
                        FileExtension = extractExtension L (call_url c)\<rparr>
                  else insertThumbnail (call_env c) w
                       \<lparr>Username = cache_key (call_user c), SHA256 = sha256Hash,
                        FileSize = fileSize, DownloadTimestamp = now_record (call_env c),
                        ImageURL = call_url c,
                        FileExtension = extractExtension L (call_url c)\<rparr>) of
              (Some err, w2) \<Rightarrow> (c\<lparr>call_place := Returned (Some err)\<rparr>, os_Remove w2 filePath)
            | (None, w2) \<Rightarrow> (c\<lparr>call_place := Returned None\<rparr>, w2))"
  using assms
  unfolding step_call_def cache_key_def [symmetric] Let_def
  by simp

lemma step_Returned:
  assumes "call_place c = Returned result"
  shows "step_call L tc c w = (c, w)"
  using assms unfolding step_call_def Let_def by simp

text \<open>
  The steps are those of \<^verbatim>\<open>DownloadAndStore\<close>: a call that runs its steps with no
  other call in between returns what \<^verbatim>\<open>DownloadAndStore\<close> returns and leaves the
  state \<^verbatim>\<open>DownloadAndStore\<close> leaves.
\<close>

lemma run_alone_DownloadAndStore:
  assumes "call_place c = AtStart"
  shows "run_alone L tc c w =
           (c\<lparr>call_place :=
                 Returned (fst (DownloadAndStore L (call_env c) tc w (call_url c) (call_user c)))\<rparr>,
            snd (DownloadAndStore L (call_env c) tc w (call_url c) (call_user c)))"
proof (cases rule: DownloadAndStore_cases
    [where env = "call_env c" and w = w and user = "call_user c"])
  case exists_fails
  then show ?thesis
    using assms
    by (simp add: run_alone_def step_AtStart step_Returned DownloadAndStore_exists_fails)
next
  case (info_fails row)
  then show ?thesis
    using assms
    by (simp add: run_alone_def step_AtStart step_AtRefreshCheck step_Returned
        DownloadAndStore_info_fails)
next
  case (fresh row)
  then show ?thesis
    using assms
    by (simp add: run_alone_def step_AtStart step_AtRefreshCheck step_Returned
        DownloadAndStore_fresh)
next
  case (stale row)
  show ?thesis
    unfolding DownloadAndStore_refresh [OF stale(3) stale(4) stale(1) stale(2)]
    using assms stale
    by (simp add: run_alone_def step_AtStart step_AtRefreshCheck step_AtDownload
        step_AtUpsert step_Returned split: prod.splits sum.splits option.splits)
next
  case new
  show ?thesis
    unfolding DownloadAndStore_new [OF new(2) new(1)]
    using assms new
    by (simp add: run_alone_def step_AtStart step_AtDownload
        step_AtUpsert step_Returned split: prod.splits sum.splits option.splits)
qed

lemma run_alone_run:
  assumes "i < length calls"
  shows "run L tc [i, i, i, i] calls w =
           (calls[i := fst (run_alone L tc (calls ! i) w)], snd (run_alone L tc (calls ! i) w))"
  using assms by (simp add: run_alone_def split: prod.splits)

lemma run_append:
  "run L tc (xs @ ys) calls w = (case run L tc xs calls w of (cs, w1) \<Rightarrow> run L tc ys cs w1)"
  by (induction xs arbitrary: calls w) (auto split: prod.splits)




lemma cache_key_Bob: "cache_key ''Bob'' = ''Bob''"
  by (simp add: cache_key_def)

lemma bob_download:
  assumes "http_Get env thumb_url = Reply 200 body"
    and "\<not> mkdir_fails env" "\<not> create_fails env" "\<not> copy_fails env"
    and "\<not> stat_fails env" "\<not> hash_fails env"
  shows "downloadImageFile example_lib env example_cache w thumb_url ''Bob'' ''.jpeg'' =
           (Inr (bob_path, int (length body), example_sha256 body),
            w\<lparr>disk := (disk w)(bob_path \<mapsto> body), requests := requests w @ [thumb_url]\<rparr>)"
  using assms
  unfolding downloadImageFile_def Let_def download_path_def [symmetric]
  by (simp add: bob_download_path os_Create_def write_file_def stat_Size_def
      calculateSHA256_def example_lib_sha256)

lemma first_call_fields:
  "call_env first_call = good_env ten_minutes_later" "call_url first_call = thumb_url"
  "call_user first_call = ''Bob''" "call_place first_call = AtStart"
  by (simp_all add: first_call_def)

lemma second_call_fields:
  "call_env second_call = (good_env ten_minutes_later)\<lparr>http_Get := example_http_newer\<rparr>"
  "call_url second_call = thumb_url"
  "call_user second_call = ''Bob''" "call_place second_call = AtStart"
  by (simp_all add: second_call_def)

lemma good_env_fields:
  "\<not> exists_query_fails (good_env t)" "\<not> info_query_fails (good_env t)"
  "now_since (good_env t) = t" "\<not> mkdir_fails (good_env t)"
  "http_Get (good_env t) = example_http" "\<not> create_fails (good_env t)"
  "\<not> copy_fails (good_env t)" "\<not> stat_fails (good_env t)" "\<not> hash_fails (good_env t)"
  "now_record (good_env t) = t" "\<not> exec_fails (good_env t)"
  "\<not> rows_affected_fails (good_env t)"
  by (simp_all add: good_env_def)


lemma second_call_checks:
  "run example_lib example_cache [1, 1] [c, second_call] bob_world =
     ([c, second_call\<lparr>call_place := AtDownload True\<rparr>], bob_world)"
  by (simp add: step_AtStart step_AtRefreshCheck second_call_fields good_env_fields
      bob_row_lookup bob_ten_minutes Minute_def Second_def)






text \<open>
  The cleanup of a call whose update fails removes the file of a call that succeeds:
  with the first call's UPDATE failing, the second call returns nil after its download,
  and the row it wrote is left with no file on disk.
\<close>

lemma Unix_ten_minutes_later: "Unix ten_minutes_later = 1700000600"
  by (simp add: ten_minutes_later_def Unix_time_Unix)

lemma DownloadAndStore_interleaved_cleanup:
  "run example_lib example_cache [0, 0, 1, 1, 0, 1, 0, 1]
     [first_call\<lparr>call_env := (good_env ten_minutes_later)\<lparr>exec_fails := True\<rparr>\<rparr>, second_call]
     bob_world =
     ([first_call\<lparr>call_env := (good_env ten_minutes_later)\<lparr>exec_fails := True\<rparr>,
                  call_place := Returned (Some UpdateError)\<rparr>,
       second_call\<lparr>call_place := Returned None\<rparr>],
      \<lparr>disk = Map.empty,
       thumbnails = [''Bob'' \<mapsto> \<lparr>sha256 = example_sha256 ''newer bytes'',
                                    file_size = 11,
                                    download_timestamp = 1700000600,
                                    image_url = thumb_url,
                                    file_extension = ''.jpeg''\<rparr>],
       requests = [thumb_url, thumb_url]\<rparr>)"
proof -
  let ?env = "(good_env ten_minutes_later)\<lparr>exec_fails := True\<rparr>"
  let ?row = "\<lparr>sha256 = example_sha256 ''newer bytes'', file_size = 11,
               download_timestamp = 1700000600, image_url = thumb_url,
               file_extension = ''.jpeg''\<rparr>"
  have s1: "run example_lib example_cache [0, 0] [first_call\<lparr>call_env := ?env\<rparr>, c] bob_world =
              ([first_call\<lparr>call_env := ?env, call_place := AtDownload True\<rparr>, c], bob_world)"
    for c
    by (simp add: step_AtStart step_AtRefreshCheck first_call_fields good_env_fields
        bob_row_lookup bob_ten_minutes Minute_def Second_def)
  have s2: "run example_lib example_cache [0]
              [first_call\<lparr>call_env := ?env, call_place := AtDownload True\<rparr>, c] bob_world =
              ([first_call\<lparr>call_env := ?env,
                  call_place := AtUpsert True bob_path 9 (example_sha256 ''new bytes'')\<rparr>, c],
               bob_world\<lparr>disk := [bob_path \<mapsto> ''new bytes''], requests := [thumb_url]\<rparr>)"
    for c
    by (simp add: step_AtDownload first_call_fields good_env_fields cache_key_Bob
        extractExtension_thumb_url bob_download [where body = "''new bytes''"] example_http_def
        bob_world_def)
  have s3: "run example_lib example_cache [1] [c, second_call\<lparr>call_place := AtDownload True\<rparr>]
              (bob_world\<lparr>disk := [bob_path \<mapsto> ''new bytes''], requests := [thumb_url]\<rparr>) =
              ([c, second_call\<lparr>call_place :=
                     AtUpsert True bob_path 11 (example_sha256 ''newer bytes'')\<rparr>],
               bob_world\<lparr>disk := [bob_path \<mapsto> ''newer bytes''],
                         requests := [thumb_url, thumb_url]\<rparr>)"
    for c
    by (simp add: step_AtDownload second_call_fields good_env_fields cache_key_Bob
        extractExtension_thumb_url bob_download [where body = "''newer bytes''"]
        example_http_newer_def bob_world_def)
  have s4: "run example_lib example_cache [0]
              [first_call\<lparr>call_env := ?env,
                 call_place := AtUpsert True bob_path 9 (example_sha256 ''new bytes'')\<rparr>, c]
              (bob_world\<lparr>disk := [bob_path \<mapsto> ''newer bytes''],
                         requests := [thumb_url, thumb_url]\<rparr>) =
              ([first_call\<lparr>call_env := ?env, call_place := Returned (Some UpdateError)\<rparr>, c],
               bob_world\<lparr>disk := Map.empty, requests := [thumb_url, thumb_url]\<rparr>)"
    for c
    by (simp add: step_AtUpsert first_call_fields updateThumbnail_def os_Remove_def
        bob_world_def)
  have s5: "run example_lib example_cache [1]
              [c, second_call\<lparr>call_place :=
                     AtUpsert True bob_path 11 (example_sha256 ''newer bytes'')\<rparr>]
              (bob_world\<lparr>disk := Map.empty, requests := [thumb_url, thumb_url]\<rparr>) =
              ([c, second_call\<lparr>call_place := Returned None\<rparr>],
               \<lparr>disk = Map.empty, thumbnails = [''Bob'' \<mapsto> ?row],
                requests = [thumb_url, thumb_url]\<rparr>)"
    for c
    by (simp add: step_AtUpsert second_call_fields good_env_fields cache_key_Bob
        extractExtension_thumb_url updateThumbnail_def Unix_ten_minutes_later bob_world_def)
  have "run example_lib example_cache ([0, 0] @ [1, 1] @ [0] @ [1] @ [0] @ [1])
          [first_call\<lparr>call_env := ?env\<rparr>, second_call] bob_world =
        ([first_call\<lparr>call_env := ?env, call_place := Returned (Some UpdateError)\<rparr>,
          second_call\<lparr>call_place := Returned None\<rparr>],
         \<lparr>disk = Map.empty, thumbnails = [''Bob'' \<mapsto> ?row],
          requests = [thumb_url, thumb_url]\<rparr>)"
    unfolding run_append s1 second_call_checks s2 s3 s4 s5 prod.case
    by (rule refl)
  then show ?thesis
    by simp
qed

subsection \<open>Thumbnail routing\<close>

lemma DownloadAndStore_empty_actor:
  "DownloadAndStore L env tc w url '''' = DownloadAndStore L env tc w url ''unknown''"
  by (simp add: DownloadAndStore_def)

lemma DownloadAndStore_other_rows:
  assumes "k \<noteq> cache_key user"
  shows "thumbnails (snd (DownloadAndStore L env tc w url user)) k = thumbnails w k"
proof (cases rule: DownloadAndStore_cases [where env = env and w = w and user = user])
  case exists_fails
  then show ?thesis by (simp add: DownloadAndStore_exists_fails)
next
  case (info_fails row)
  then show ?thesis by (simp add: DownloadAndStore_info_fails)
next
  case (fresh row)
  then show ?thesis by (simp add: DownloadAndStore_fresh)
next
  case (stale row)
  from assms show ?thesis
    unfolding DownloadAndStore_refresh [OF stale(3) stale(4) stale(1) stale(2)]
      downloadImageFile_env updateThumbnail_def Let_def
    by (auto simp: os_Remove_def split: http_reply.splits option.splits)
next
  case new
  from assms show ?thesis
    unfolding DownloadAndStore_new [OF new(2) new(1)]
      downloadImageFile_env insertThumbnail_def Let_def
    by (auto simp: os_Remove_def split: http_reply.splits option.splits)
qed

lemma DownloadAndStore_stores_key:
  assumes "fst (DownloadAndStore L env tc w url user) = None"
    and "requests (snd (DownloadAndStore L env tc w url user)) \<noteq> requests w"
  shows "\<exists>row. thumbnails (snd (DownloadAndStore L env tc w url user)) (cache_key user) = Some row \<and>
           image_url row = url"
proof -
  obtain w' where r: "DownloadAndStore L env tc w url user = (None, w')"
    using assms(1) by (cases "DownloadAndStore L env tc w url user") simp
  with assms(2) have "requests w' \<noteq> requests w"
    by simp
  from DownloadAndStore_success_download [OF r this] show ?thesis
    by (auto simp: r)
qed

text \<open>
  Claim C10. For a message whose author has a slug that is a string, whatever the
  string and whatever the author's username, and a non-empty thumbnail URL, the routing
  step of \<^verbatim>\<open>outputEvent\<close> starts \<^verbatim>\<open>DownloadAndStore\<close> with the slug as
  actor: the username is not consulted. (The step is reached unless the top-level type
  is one of the three control types.) \<^verbatim>\<open>DownloadAndStore\<close> leaves every row but
  the one of its actor as it was and stores a successful download under its actor, which
  for the empty actor is "unknown". So for the slug "" the thumbnail is cached under
  "unknown", and the row of the author's username is left as it was.
\<close>

theorem author_slug_is_cache_actor:
  assumes "msg ''message'' = Some (JObj message)"
    and "message ''author'' = Some (JObj author)"
    and "author ''slug'' = Some (JStr slug)"
    and "author ''signedPhotoThumbUrl'' = Some (JStr url)" and "url \<noteq> ''''"
    and "thumbCache s = Some tc"
  shows "cache_thumbnail s msg = [Go_DownloadAndStore url slug] \<and>
         ((\<forall>t. msg ''type'' = Some (JStr t) \<longrightarrow>
             t \<noteq> ''confirm_subscription'' \<and> t \<noteq> ''reject_subscription'' \<and> t \<noteq> ''ping'') \<longrightarrow>
          outputEvent L s msg = Go_DownloadAndStore url slug # output_raw L msg) \<and>
         (\<forall>k. k \<noteq> (if slug = '''' then ''unknown'' else slug) \<longrightarrow>
            thumbnails (snd (DownloadAndStore L env tc w url slug)) k = thumbnails w k) \<and>
         (fst (DownloadAndStore L env tc w url slug) = None \<and>
          requests (snd (DownloadAndStore L env tc w url slug)) \<noteq> requests w \<longrightarrow>
            (\<exists>row. thumbnails (snd (DownloadAndStore L env tc w url slug))
                     (if slug = '''' then ''unknown'' else slug) = Some row \<and>
               image_url row = url)) \<and>
         (slug = '''' \<longrightarrow>
            DownloadAndStore L env tc w url slug = DownloadAndStore L env tc w url ''unknown'' \<and>
            (\<forall>usr. author ''username'' = Some (JStr usr) \<and> usr \<noteq> ''unknown'' \<longrightarrow>
               thumbnails (snd (DownloadAndStore L env tc w url slug)) usr = thumbnails w usr))"
proof -
  have route: "cache_thumbnail s msg = [Go_DownloadAndStore url slug]"
    using assms by (simp add: cache_thumbnail_def thumbnail_username_def)
  have out: "outputEvent L s msg = Go_DownloadAndStore url slug # output_raw L msg"
    if "\<forall>t. msg ''type'' = Some (JStr t) \<longrightarrow>
          t \<noteq> ''confirm_subscription'' \<and> t \<noteq> ''reject_subscription'' \<and> t \<noteq> ''ping''"
    using that route
    by (cases "msg ''type''" rule: assert_string.cases) (simp_all add: outputEvent_def)
  have other: "thumbnails (snd (DownloadAndStore L env tc w url slug)) k = thumbnails w k"
    if "k \<noteq> (if slug = '''' then ''unknown'' else slug)" for k
    using that DownloadAndStore_other_rows [of k slug L env tc w url]
    by (simp add: cache_key_def)
  have stored: "\<exists>row. thumbnails (snd (DownloadAndStore L env tc w url slug))
                        (if slug = '''' then ''unknown'' else slug) = Some row \<and>
                  image_url row = url"
    if "fst (DownloadAndStore L env tc w url slug) = None"
      and "requests (snd (DownloadAndStore L env tc w url slug)) \<noteq> requests w"
    using DownloadAndStore_stores_key [OF that] by (simp add: cache_key_def)
  have empty: "DownloadAndStore L env tc w url slug = DownloadAndStore L env tc w url ''unknown''"
    if "slug = ''''"
    using that by (simp add: DownloadAndStore_empty_actor)
  have usr: "thumbnails (snd (DownloadAndStore L env tc w url slug)) usr = thumbnails w usr"
    if "slug = ''''" "usr \<noteq> ''unknown''" for usr
    using that other [of usr] by simp
  from route out other stored empty usr show ?thesis
    by blast
qed

lemma char_of_u: "char_of (117::nat) = CHR ''u''"
  by (simp add: char_of_def bit_iff_odd_drop_bit)

lemma getSubdirectory_unknown: "getSubdirectory ''unknown'' = ''u''"
  by (simp add: getSubdirectory_def runes_def ToLower_def EncodeRune_def unicode_ToLower_def
      char_of_u)

lemma unknown_new_eval:
  "DownloadAndStore example_lib (good_env ten_minutes_later) example_cache empty_world
     thumb_url ''unknown'' =
     (None, \<lparr>disk = [''./thumbcache/u/unknown.jpeg'' \<mapsto> ''new bytes''],
             thumbnails = [''unknown'' \<mapsto> \<lparr>sha256 = example_sha256 ''new bytes'',
                                              file_size = 9,
                                              download_timestamp = 1700000600,
                                              image_url = thumb_url,
                                              file_extension = ''.jpeg''\<rparr>],
             requests = [thumb_url]\<rparr>)"
proof -
  have new:
    "thumbnails empty_world (cache_key ''unknown'') = None"
    "\<not> exists_query_fails (good_env ten_minutes_later)"
    by (simp_all add: empty_world_def good_env_def)
  have path: "download_path example_lib example_cache ''unknown'' ''.jpeg'' =
                ''./thumbcache/u/unknown.jpeg''"
    by (simp add: download_path_def example_lib_def example_cache_def getSubdirectory_unknown)
  show ?thesis
    unfolding DownloadAndStore_new [OF new] downloadImageFile_env extractExtension_thumb_url
    by (simp add: good_env_def example_http_def cache_key_def path empty_world_def
        insertThumbnail_def ten_minutes_later_def Unix_time_Unix example_lib_sha256)
qed

text \<open>
  The chat message of an author with slug "" and username "bob": the download is
  started with the empty actor, and run on an empty cache it stores the thumbnail under
  "unknown" and nothing under "bob".
\<close>

theorem author_slug_is_cache_actor_witness:
  "cache_thumbnail example_server chat_msg = [Go_DownloadAndStore thumb_url ''''] \<and>
   thumbnails (snd (DownloadAndStore example_lib (good_env ten_minutes_later) example_cache
                      empty_world thumb_url '''')) ''bob'' = None \<and>
   thumbnails (snd (DownloadAndStore example_lib (good_env ten_minutes_later) example_cache
                      empty_world thumb_url '''')) ''unknown'' \<noteq> None"
proof -
  let ?author = "[''slug'' \<mapsto> JStr '''', ''username'' \<mapsto> JStr ''bob'',
                  ''signedPhotoThumbUrl'' \<mapsto> JStr thumb_url]"
  let ?message = "[''type'' \<mapsto> JStr ''ChatMessage'', ''author'' \<mapsto> JObj ?author]"
  let ?run = "DownloadAndStore example_lib (good_env ten_minutes_later) example_cache
                empty_world thumb_url ''''"
  have h: "chat_msg ''message'' = Some (JObj ?message)"
    "?message ''author'' = Some (JObj ?author)"
    "?author ''slug'' = Some (JStr '''')"
    "?author ''signedPhotoThumbUrl'' = Some (JStr thumb_url)" "thumb_url \<noteq> ''''"
    "thumbCache example_server = Some example_cache"
    by (simp_all add: chat_msg_def thumb_url_def example_server_def)
  note t = author_slug_is_cache_actor
    [where msg = chat_msg and message = "?message" and author = "?author" and slug = "''''"
       and url = thumb_url and s = example_server and tc = example_cache and L = example_lib
       and env = "good_env ten_minutes_later" and w = empty_world, OF h]
  have route: "cache_thumbnail example_server chat_msg = [Go_DownloadAndStore thumb_url '''']"
    using t by (rule conjunct1)
  have run: "?run = DownloadAndStore example_lib (good_env ten_minutes_later) example_cache
                      empty_world thumb_url ''unknown''"
    using t [THEN conjunct2, THEN conjunct2, THEN conjunct2, THEN conjunct2] by simp
  have other: "thumbnails (snd ?run) ''bob'' = thumbnails empty_world ''bob''"
    using t [THEN conjunct2, THEN conjunct2, THEN conjunct1, THEN spec [where x = "''bob''"]]
    by simp
  have ok: "fst ?run = None" "requests (snd ?run) \<noteq> requests empty_world"
    unfolding run unknown_new_eval by (simp_all add: empty_world_def)
  have stored: "thumbnails (snd ?run) ''unknown'' \<noteq> None"
    using t [THEN conjunct2, THEN conjunct2, THEN conjunct2, THEN conjunct1] ok
    by auto
  from route other stored show ?thesis
    by (simp add: empty_world_def)
qed

subsection \<open>The read loop\<close>

lemma listen_result:
  "snd (listen L s fs) = (if ReadFails \<in> set fs then Some ReadError else None)"
  by (induction L s fs rule: listen.induct) (auto split: prod.splits)

text \<open>
  Claim C7, as amended. A message with top-level type "reject_subscription" is
  intercepted by \<^verbatim>\<open>outputEvent\<close>: the only thing done is the log line that reports
  the rejection as an authentication failure; no thumbnail download is started and the
  event is not output. The read loop then goes on with the frames that follow: it
  returns only when a read fails.
\<close>

theorem reject_subscription_intercepted:
  assumes "msg ''type'' = Some (JStr ''reject_subscription'')"
  shows "outputEvent L s msg = [Log SubscriptionRejected] \<and>
         listen L s (Message msg # rest) =
           (Log SubscriptionRejected # fst (listen L s rest), snd (listen L s rest)) \<and>
         snd (listen L s (Message msg # rest)) =
           (if ReadFails \<in> set rest then Some ReadError else None)"
proof -
  have out: "outputEvent L s msg = [Log SubscriptionRejected]"
    using assms by (simp add: outputEvent_def)
  then have "listen L s (Message msg # rest) =
               (Log SubscriptionRejected # fst (listen L s rest), snd (listen L s rest))"
    by (simp split: prod.splits)
  with out listen_result [of L s rest] show ?thesis
    by simp
qed

lemma outputEvent_follow:
  "outputEvent example_lib example_server follow_msg = [Log (EventReceived follow_json)]"
proof -
  have "cache_thumbnail example_server follow_msg = []"
    by (simp add: cache_thumbnail_def follow_msg_def)
  moreover have "output_raw example_lib follow_msg = [Log (EventReceived follow_json)]"
    by (simp add: output_raw_def example_lib_def example_Marshal_def)
  moreover have "assert_string (follow_msg ''type'') = None"
    by (simp add: follow_msg_def)
  ultimately show ?thesis
    by (simp add: outputEvent_def)
qed

text \<open>
  A rejection followed by the follow message and a failed read: the follow message is
  still output, and the loop ends at the failed read.
\<close>

theorem reject_subscription_intercepted_witness:
  "listen example_lib example_server [Message reject_msg, Message follow_msg, ReadFails] =
     ([Log SubscriptionRejected, Log (EventReceived follow_json), Log ConnectionClosed],
      Some ReadError)"
proof -
  have "reject_msg ''type'' = Some (JStr ''reject_subscription'')"
    by (simp add: reject_msg_def)
  with reject_subscription_intercepted
    [where msg = reject_msg and L = example_lib and s = example_server
       and rest = "[Message follow_msg, ReadFails]"]
  show ?thesis
    by (simp add: outputEvent_follow)
qed

text \<open>
  C7 as it was stated fails on a connection that delivers a rejection and then a
  confirmation: \<^verbatim>\<open>ConnectToWebSocket\<close> handles the confirmation after the
  rejection and is still listening.
\<close>

theorem reject_subscription_loop_continues_counterexample:
  "ConnectToWebSocket example_lib example_server
     \<lparr>dial_fails = False, subscribe_fails = False,
      frames = [Message reject_msg, Message confirm_msg]\<rparr> =
     ([Log Connected, Log SentSubscription, Log SubscriptionRejected, Log Subscribed], None)"
  by (simp add: ConnectToWebSocket_def example_server_def outputEvent_def reject_msg_def
      confirm_msg_def)

subsection \<open>Shard and extension\<close>

lemma runes_Nil: "runes [] = []"
  by (simp add: runes_def)

lemma runes_ascii:
  "of_char c < (128::nat) \<Longrightarrow> runes (c # cs) = of_char c # runes cs"
  by (simp add: runes_def)

lemma EncodeRune_ascii: "of_char c < (128::nat) \<Longrightarrow> EncodeRune (of_char c) = [c]"
  by (simp add: EncodeRune_def)

lemma string_le_a: "string_le ''a'' [x] = (97 \<le> (of_char x :: nat))"
  by auto

lemma string_le_z: "string_le [x] ''z'' = ((of_char x :: nat) \<le> 122)"
  by auto

text \<open>
  On an actor whose first byte is ASCII the shard is as the specification says: the
  letter in lower case for a letter, the overflow shard "other" for anything else.
\<close>

lemma getSubdirectory_ascii:
  assumes "of_char c < (128::nat)"
  shows "getSubdirectory (c # cs) =
           (if 65 \<le> (of_char c :: nat) \<and> (of_char c :: nat) \<le> 90 then
              [char_of (of_char c + 32 :: nat)]
            else if 97 \<le> (of_char c :: nat) \<and> (of_char c :: nat) \<le> 122 then [c]
            else ''other'')"
proof -
  have r: "runes (c # cs) = of_char c # runes cs"
    using assms by (rule runes_ascii)
  have e: "EncodeRune (of_char c) = [c]"
    using assms by (rule EncodeRune_ascii)
  have l: "ToLower [c] = EncodeRune (unicode_ToLower (of_char c))"
    using assms by (simp add: ToLower_def runes_ascii runes_Nil)
  show ?thesis
  proof (cases "65 \<le> (of_char c :: nat) \<and> (of_char c :: nat) \<le> 90")
    case True
    then have "unicode_ToLower (of_char c) = of_char c + 32"
      by (simp add: unicode_ToLower_def)
    moreover have "EncodeRune (of_char c + 32) = [char_of (of_char c + 32 :: nat)]"
      using True by (simp add: EncodeRune_def)
    moreover have "of_char (char_of (of_char c + 32 :: nat)) = (of_char c + 32 :: nat)"
      using True by simp
    ultimately show ?thesis
      using True by (simp add: getSubdirectory_def r e l string_le_a string_le_z)
  next
    case False
    then have "unicode_ToLower (of_char c) = of_char c"
      using assms by (auto simp: unicode_ToLower_def)
    then show ?thesis
      using False by (auto simp: getSubdirectory_def r e l string_le_a string_le_z)
  qed
qed

lemma getSubdirectory_empty: "getSubdirectory '''' = ''other''"
  by (simp add: getSubdirectory_def)

lemma getSubdirectory_Alice: "getSubdirectory ''Alice'' = ''a''"
  by (simp add: getSubdirectory_ascii char_of_def bit_iff_odd_drop_bit)

lemma getSubdirectory_digit: "getSubdirectory ''9lives'' = ''other''"
  by (simp add: getSubdirectory_ascii)

text \<open>
  An actor that starts with a Cyrillic letter (U+0416, bytes D0 96) goes to the
  overflow shard.
\<close>

lemma getSubdirectory_cyrillic: "getSubdirectory [CHR 0xD0, CHR 0x96, CHR 0xD1, CHR 0x83] = ''other''"
  by (simp add: getSubdirectory_def runes_def ToLower_def EncodeRune_def unicode_ToLower_def
      char_of_def bit_iff_odd_drop_bit)

text \<open>
  Encoding a rune and decoding the bytes again gives the rune back (the replacement
  character for a value that is not a code point), so the lower-casing of the first
  character works on the first character itself.
\<close>

lemma mod_192: "x < 32 \<Longrightarrow> (192 + x) mod 32 = (x::nat)"
  by (simp add: mod_if)
lemma mod_128: "x < 64 \<Longrightarrow> (128 + x) mod 64 = (x::nat)"
  by (simp add: mod_if)
lemma mod_224: "x < 16 \<Longrightarrow> (224 + x) mod 16 = (x::nat)"
  by (simp add: mod_if)
lemma mod_240: "x < 8 \<Longrightarrow> (240 + x) mod 8 = (x::nat)"
  by (simp add: mod_if)

lemma decode_bytes_2:
  assumes "2 \<le> a" "a < 32" "c < 64"
  shows "DecodeRune ((192 + a) # (128 + c) # bs) = (a * 64 + c, 2)"
  using assms by (simp add: mod_192 mod_128 Let_def)

lemma decode_bytes_3:
  assumes "a < 16" "b < 64" "c < 64" "a = 0 \<longrightarrow> 32 \<le> b" "a = 13 \<longrightarrow> b < 32"
  shows "DecodeRune ((224 + a) # (128 + b) # (128 + c) # bs) = (a * 4096 + b * 64 + c, 3)"
  using assms by (auto simp: mod_224 mod_128 Let_def)

lemma decode_bytes_4:
  assumes "a < 5" "b < 64" "c < 64" "d < 64" "a = 0 \<longrightarrow> 16 \<le> b" "a = 4 \<longrightarrow> b < 16"
  shows "DecodeRune ((240 + a) # (128 + b) # (128 + c) # (128 + d) # bs) =
           (a * 262144 + b * 4096 + c * 64 + d, 4)"
  using assms by (auto simp: mod_240 mod_128 Let_def)

lemma encode_decode_first:
  assumes "0x80 \<le> r"
  shows "\<exists>n. DecodeRune (map of_char (EncodeRune r) @ bs) =
           (if 0x10FFFF < r \<or> (0xD800 \<le> r \<and> r \<le> 0xDFFF) then RuneError else r, n) \<and> 0 < n"
proof -
  consider (two) "r < 0x800"
    | (bad) "0x800 \<le> r" "0x10FFFF < r \<or> (0xD800 \<le> r \<and> r \<le> 0xDFFF)"
    | (three) "0x800 \<le> r" "r < 0x10000" "\<not> (0xD800 \<le> r \<and> r \<le> 0xDFFF)"
    | (four) "0x10000 \<le> r" "r \<le> 0x10FFFF"
    by linarith
  then show ?thesis
  proof cases
    case two
    define a where "a = r div 64"
    define c where "c = r mod 64"
    have r: "r = a * 64 + c"
      unfolding a_def c_def by simp
    have b: "2 \<le> a" "a < 32" "c < 64"
      using assms two unfolding a_def c_def by auto
    have e: "map of_char (EncodeRune r) = [192 + a, 128 + c]"
      using assms two b by (simp add: EncodeRune_def a_def c_def)
    have "DecodeRune ([192 + a, 128 + c] @ bs) = (r, 2)"
      unfolding r using decode_bytes_2 [OF b, of bs] by (simp del: DecodeRune.simps)
    then show ?thesis
      unfolding e using two by (simp del: DecodeRune.simps)
  next
    case bad
    then have e: "map of_char (EncodeRune r) = [0xEF, 0xBF, 0xBD :: nat]"
      by (auto simp: EncodeRune_def)
    have "DecodeRune ([0xEF, 0xBF, 0xBD] @ bs) = (RuneError, 3)"
      using decode_bytes_3 [of 15 63 61 bs] by (simp add: RuneError_def del: DecodeRune.simps)
    then show ?thesis
      unfolding e using bad by (auto simp del: DecodeRune.simps)
  next
    case three
    define a where "a = r div 4096"
    define b where "b = (r div 64) mod 64"
    define c where "c = r mod 64"
    have "r = (r div 64) * 64 + c"
      unfolding c_def by simp
    moreover have "r div 64 = a * 64 + b"
      unfolding a_def b_def using div_mult2_eq [of r 64 64] by simp
    ultimately have r: "r = a * 4096 + b * 64 + c"
      by simp
    have bounds: "a < 16" "b < 64" "c < 64"
      using three unfolding a_def b_def c_def by auto
    have lo: "a = 0 \<longrightarrow> 32 \<le> b"
      using three bounds unfolding r by auto
    have hi: "a = 13 \<longrightarrow> b < 32"
      using three bounds unfolding r by auto
    have ns: "(0xD800 \<le> r \<and> r \<le> 0xDFFF) = False"
      using three(3) by simp
    have e: "map of_char (EncodeRune r) = [224 + a, 128 + b, 128 + c]"
      using three(1,2) bounds unfolding EncodeRune_def ns by (simp add: a_def b_def c_def)
    have "DecodeRune ([224 + a, 128 + b, 128 + c] @ bs) = (r, 3)"
      unfolding r using decode_bytes_3 [OF bounds lo hi, of bs] by (simp del: DecodeRune.simps)
    then show ?thesis
      unfolding e ns using three(2) by (simp del: DecodeRune.simps)
  next
    case four
    define a where "a = r div 262144"
    define b where "b = (r div 4096) mod 64"
    define c where "c = (r div 64) mod 64"
    define d where "d = r mod 64"
    have "r = (r div 64) * 64 + d"
      unfolding d_def by simp
    moreover have "r div 64 = (r div 4096) * 64 + c"
      unfolding c_def using div_mult2_eq [of r 64 64] by simp
    moreover have "r div 4096 = a * 64 + b"
      unfolding a_def b_def using div_mult2_eq [of r 4096 64] by simp
    ultimately have r: "r = a * 262144 + b * 4096 + c * 64 + d"
      by simp
    have bounds: "a < 5" "b < 64" "c < 64" "d < 64"
      using four unfolding a_def b_def c_def d_def by auto
    have lo: "a = 0 \<longrightarrow> 16 \<le> b"
      using four bounds unfolding r by auto
    have hi: "a = 4 \<longrightarrow> b < 16"
      using four bounds unfolding r by auto
    have e: "map of_char (EncodeRune r) = [240 + a, 128 + b, 128 + c, 128 + d]"
      using four bounds by (simp add: EncodeRune_def a_def b_def c_def d_def)
    have "DecodeRune ([240 + a, 128 + b, 128 + c, 128 + d] @ bs) = (r, 4)"
      unfolding r using decode_bytes_4 [OF bounds lo hi, of bs] by (simp del: DecodeRune.simps)
    then show ?thesis
      unfolding e using four by (simp del: DecodeRune.simps)
  qed
qed

lemma EncodeRune_first_byte:
  assumes "0x80 \<le> r"
  shows "\<exists>c cs. EncodeRune r = c # cs \<and> (0xC0::nat) \<le> of_char c"
proof -
  have "r < 0x800 \<Longrightarrow> r div 64 < 32"
    by auto
  moreover have "r < 0x10000 \<Longrightarrow> r div 4096 < 16"
    by auto
  moreover have "\<not> 0x10FFFF < r \<Longrightarrow> r div 262144 < 5"
    by auto
  ultimately show ?thesis
    using assms by (auto simp: EncodeRune_def)
qed

lemma runes_EncodeRune:
  assumes "0x80 \<le> r"
  shows "\<exists>rs. runes (EncodeRune r) =
           (if 0x10FFFF < r \<or> (0xD800 \<le> r \<and> r \<le> 0xDFFF) then RuneError else r) # rs"
proof -
  obtain c cs where e: "EncodeRune r = c # cs"
    using EncodeRune_first_byte [OF assms] by blast
  from encode_decode_first [OF assms, of "[]"] show ?thesis
    unfolding runes_def e by (auto simp del: DecodeRune.simps)
qed

text \<open>
  Every actor whose first character is outside ASCII, the two code points U+0130 and
  U+212A apart, goes to the overflow shard.
\<close>

lemma getSubdirectory_non_ascii_rune:
  assumes "runes username = r # rs" and "0x80 \<le> r" and "r \<noteq> 0x130" and "r \<noteq> 0x212A"
  shows "getSubdirectory username = ''other''"
proof -
  define r' where "r' = (if 0x10FFFF < r \<or> (0xD800 \<le> r \<and> r \<le> 0xDFFF) then RuneError else r)"
  have r': "0x80 \<le> r'" "unicode_ToLower r' = r'"
    using assms(2-4) by (auto simp: r'_def RuneError_def unicode_ToLower_def)
  obtain rs' where "runes (EncodeRune r) = r' # rs'"
    using runes_EncodeRune [OF assms(2)] unfolding r'_def by blast
  then have "ToLower (EncodeRune r) = EncodeRune r' @ concat (map (\<lambda>r. EncodeRune (unicode_ToLower r)) rs')"
    by (simp add: ToLower_def r')
  moreover obtain c cs where "EncodeRune r' = c # cs" "(0xC0::nat) \<le> of_char c"
    using EncodeRune_first_byte [OF r'(1)] by blast
  ultimately have "\<not> string_le (ToLower (EncodeRune r)) ''z''"
    by simp
  moreover have "username \<noteq> ''''"
    using assms(1) by (auto simp: runes_def)
  ultimately show ?thesis
    by (simp add: getSubdirectory_def assms(1))
qed

text \<open>
  The extension is always one of the whitelist, with ".png" as the fallback; the URL
  of the specification's scenario gives ".jpeg".
\<close>

lemma extractExtension_whitelisted:
  "extractExtension L url \<in> (\<lambda>e. ''.'' @ e) ` set image_extensions"
  by (auto simp: extractExtension_def image_extensions_def Let_def split: option.splits)

lemma extractExtension_no_path:
  "url_Path L url = None \<or> url_Path L url = Some '''' \<Longrightarrow> extractExtension L url = ''.png''"
  by (auto simp: extractExtension_def)

lemma ToLower_JPG: "ToLower ''JPG'' = ''jpg''"
  by (simp add: ToLower_def runes_def EncodeRune_def unicode_ToLower_def char_of_def
      bit_iff_odd_drop_bit)

lemma extractExtension_upper_case:
  "url_Path L url = Some ''/x/avatar.JPG'' \<Longrightarrow> extractExtension L url = ''.jpg''"
  by (simp add: extractExtension_def Base_def ToLower_JPG image_extensions_def)

lemma extractExtension_unknown_suffix:
  "url_Path L url = Some ''/x/avatar.exe'' \<Longrightarrow> extractExtension L url = ''.png''"
  by (simp add: extractExtension_def Base_def ToLower_def runes_def EncodeRune_def
      unicode_ToLower_def char_of_def bit_iff_odd_drop_bit image_extensions_def)

text \<open>
  The lower-casing of the suffix goes through the same mapping: a suffix written with
  U+0130 for its "i" is taken for "gif".
\<close>

lemma ToLower_dotted_GIF: "ToLower [CHR ''G'', CHR 0xC4, CHR 0xB0, CHR ''F''] = ''gif''"
  by (simp add: ToLower_def runes_def EncodeRune_def unicode_ToLower_def char_of_def
      bit_iff_odd_drop_bit)

lemma extractExtension_dotted_GIF:
  "url_Path L url =
     Some [CHR ''/'', CHR ''a'', CHR ''.'', CHR ''G'', CHR 0xC4, CHR 0xB0, CHR ''F''] \<Longrightarrow>
   extractExtension L url = ''.gif''"
  by (simp add: extractExtension_def Base_def ToLower_dotted_GIF image_extensions_def)

lemma kelvin_runes:
  "runes ([CHR 0xE2, CHR 0x84, CHR 0xAA] @ ''elvin'') = [0x212A, 0x65, 0x6C, 0x76, 0x69, 0x6E]"
  "runes [CHR 0xE2, CHR 0x84, CHR 0xAA] = [0x212A]"
  by (simp_all add: runes_def)

lemma dotted_I_runes:
  "runes ([CHR 0xC4, CHR 0xB0] @ ''stanbul'') = [0x130, 0x73, 0x74, 0x61, 0x6E, 0x62, 0x75, 0x6C]"
  "runes [CHR 0xC4, CHR 0xB0] = [0x130]"
  by (simp_all add: runes_def)

lemma ToLower_kelvin: "ToLower (EncodeRune 0x212A) = ''k''"
proof -
  have "EncodeRune 0x212A = [CHR 0xE2, CHR 0x84, CHR 0xAA]"
    by (simp add: EncodeRune_def char_of_def bit_iff_odd_drop_bit)
  moreover have "EncodeRune 0x6B = ''k''"
    by (simp add: EncodeRune_def char_of_def bit_iff_odd_drop_bit)
  ultimately show ?thesis
    by (simp add: ToLower_def kelvin_runes unicode_ToLower_def)
qed

lemma ToLower_dotted_I: "ToLower (EncodeRune 0x130) = ''i''"
proof -
  have "EncodeRune 0x130 = [CHR 0xC4, CHR 0xB0]"
    by (simp add: EncodeRune_def char_of_def bit_iff_odd_drop_bit)
  moreover have "EncodeRune 0x69 = ''i''"
    by (simp add: EncodeRune_def char_of_def bit_iff_odd_drop_bit)
  ultimately show ?thesis
    by (simp add: ToLower_def dotted_I_runes unicode_ToLower_def)
qed

text \<open>
  Claim C8, on the inputs where the code departs from it. An actor whose first
  character is U+212A, the Kelvin sign (bytes E2 84 AA), is not an ASCII letter, and
  its shard is "k", not the overflow shard; likewise U+0130 (bytes C4 B0) gives the
  shard "i". \<^verbatim>\<open>getSubdirectory\<close> lower-cases the first character with
  \<^verbatim>\<open>strings.ToLower\<close> before it tests for the range "a" to "z", and Go's lower-case
  mapping sends these two characters to ASCII letters.
\<close>

theorem getSubdirectory_non_ascii_first_letter:
  "getSubdirectory ([CHR 0xE2, CHR 0x84, CHR 0xAA] @ ''elvin'') = ''k'' \<and>
   getSubdirectory ([CHR 0xC4, CHR 0xB0] @ ''stanbul'') = ''i''"
  unfolding getSubdirectory_def kelvin_runes dotted_I_runes
  by (simp add: ToLower_kelvin ToLower_dotted_I)


end
